theory Spec2Isabelle
  imports Main
begin

section \<open>JavaScript strings\<close>

text \<open>
  A JavaScript string is modelled as a \<^typ>\<open>string\<close>: a list of 8-bit characters, each read
  as the code unit of the same number (U+0000 to U+00FF).  On this range
  \<^verbatim>\<open>String.prototype.toLowerCase\<close> keeps the length of the string: it maps the letters
  \<^verbatim>\<open>A-Z\<close> and the upper-case letters U+00C0 to U+00DE (U+00D7, the multiplication sign,
  apart) to the character 32 places later and leaves every other character alone.
\<close>

definition upperCaseLetters :: "char list" where
  "upperCaseLetters =
     ''ABCDEFGHIJKLMNOPQRSTUVWXYZ'' @
       [CHR 0xC0, CHR 0xC1, CHR 0xC2, CHR 0xC3, CHR 0xC4, CHR 0xC5, CHR 0xC6, CHR 0xC7,
        CHR 0xC8, CHR 0xC9, CHR 0xCA, CHR 0xCB, CHR 0xCC, CHR 0xCD, CHR 0xCE, CHR 0xCF,
        CHR 0xD0, CHR 0xD1, CHR 0xD2, CHR 0xD3, CHR 0xD4, CHR 0xD5, CHR 0xD6, CHR 0xD8,
        CHR 0xD9, CHR 0xDA, CHR 0xDB, CHR 0xDC, CHR 0xDD, CHR 0xDE]"

definition lowerCaseLetters :: "char list" where
  "lowerCaseLetters =
     ''abcdefghijklmnopqrstuvwxyz'' @
       [CHR 0xE0, CHR 0xE1, CHR 0xE2, CHR 0xE3, CHR 0xE4, CHR 0xE5, CHR 0xE6, CHR 0xE7,
        CHR 0xE8, CHR 0xE9, CHR 0xEA, CHR 0xEB, CHR 0xEC, CHR 0xED, CHR 0xEE, CHR 0xEF,
        CHR 0xF0, CHR 0xF1, CHR 0xF2, CHR 0xF3, CHR 0xF4, CHR 0xF5, CHR 0xF6, CHR 0xF8,
        CHR 0xF9, CHR 0xFA, CHR 0xFB, CHR 0xFC, CHR 0xFD, CHR 0xFE]"

definition toLowerCaseChar :: "char \<Rightarrow> char" where
  "toLowerCaseChar c =
     (case map_of (zip upperCaseLetters lowerCaseLetters) c of Some l \<Rightarrow> l | None \<Rightarrow> c)"

definition toLowerCase :: "string \<Rightarrow> string" where
  "toLowerCase s = map toLowerCaseChar s"

text \<open>\<^verbatim>\<open>s.startsWith(k)\<close> and \<^verbatim>\<open>s.includes(k)\<close>: \<open>k\<close> occurs in \<open>s\<close> as a
  contiguous run of characters.\<close>

fun startsWith :: "string \<Rightarrow> string \<Rightarrow> bool" where
  "startsWith s [] = True"
| "startsWith [] (k # ks) = False"
| "startsWith (c # cs) (k # ks) = (c = k \<and> startsWith cs ks)"

fun str_includes :: "string \<Rightarrow> string \<Rightarrow> bool" where
  "str_includes [] k = (k = [])"
| "str_includes (c # cs) k = (startsWith (c # cs) k \<or> str_includes cs k)"

section \<open>Planning service: \<^verbatim>\<open>analyzeGoalAndCreatePlans\<close>\<close>

datatype priority = low | medium | high

datatype plan_status = plan_pending | plan_in_progress | plan_completed

text \<open>\<^verbatim>\<open>Omit<TaskPlan, 'id' | 'goal_id' | 'created_at'>\<close>: a plan step before it is stored.\<close>

record plan_draft =
  title :: string
  description :: "string option"
  sequence_order :: int
  estimated_duration :: "string option"
  priority :: priority
  status :: plan_status

definition draft :: "string \<Rightarrow> string \<Rightarrow> int \<Rightarrow> string \<Rightarrow> priority \<Rightarrow> plan_draft" where
  "draft t d n e p =
     \<lparr>title = t, description = Some d, sequence_order = n, estimated_duration = Some e,
      priority = p, status = plan_pending\<rparr>"

text \<open>The five array literals of \<^verbatim>\<open>analyzeGoalAndCreatePlans\<close>, in the order of the source.\<close>

definition businessPlans :: "plan_draft list" where
  "businessPlans =
    [draft ''Market Research & Validation''
       ''Research your target market, validate your business idea, and analyze competitors''
       1 ''2-3 weeks'' high,
     draft ''Business Plan Development''
       ''Create a comprehensive business plan including financial projections and strategy''
       2 ''1-2 weeks'' high,
     draft ''Legal Structure & Registration''
       ''Choose business structure, register your business, and handle legal requirements''
       3 ''1 week'' medium,
     draft ''Product/Service Development''
       ''Develop your minimum viable product or service offering''
       4 ''4-8 weeks'' high,
     draft ''Marketing & Launch Strategy''
       ''Develop marketing materials, build online presence, and plan your launch''
       5 ''2-3 weeks'' medium]"

definition learningPlans :: "plan_draft list" where
  "learningPlans =
    [draft ''Foundation & Prerequisites''
       ''Establish fundamental knowledge and ensure you have necessary prerequisites''
       1 ''1-2 weeks'' high,
     draft ''Structured Learning Path''
       ''Follow a systematic curriculum with hands-on practice and projects''
       2 ''8-12 weeks'' high,
     draft ''Practical Application''
       ''Build real projects to apply your knowledge and create a portfolio''
       3 ''4-6 weeks'' medium,
     draft ''Advanced Topics''
       ''Dive deeper into specialized areas and advanced concepts''
       4 ''3-4 weeks'' medium,
     draft ''Community & Networking''
       ''Join communities, attend events, and build professional connections''
       5 ''Ongoing'' low]"

definition travelPlans :: "plan_draft list" where
  "travelPlans =
    [draft ''Destination Research & Planning''
       ''Research destinations, create itinerary, and plan activities''
       1 ''1-2 weeks'' high,
     draft ''Budget Planning & Booking''
       ''Set budget, book flights, accommodations, and major activities''
       2 ''1 week'' high,
     draft ''Documentation & Preparation''
       ''Handle passports, visas, travel insurance, and packing preparation''
       3 ''2-3 weeks'' medium,
     draft ''Final Preparations''
       ''Complete packing, arrange transportation, and handle last-minute details''
       4 ''3-5 days'' medium]"

definition eventPlans :: "plan_draft list" where
  "eventPlans =
    [draft ''Event Concept & Planning''
       ''Define event goals, theme, target audience, and initial planning''
       1 ''1 week'' high,
     draft ''Venue & Date Selection''
       ''Research and book venue, set date, and handle initial logistics''
       2 ''1-2 weeks'' high,
     draft ''Vendor Coordination''
       ''Book catering, entertainment, equipment, and other necessary services''
       3 ''2-3 weeks'' medium,
     draft ''Marketing & Promotion''
       ''Create promotional materials, manage registrations, and build awareness''
       4 ''3-4 weeks'' medium,
     draft ''Final Preparations & Execution''
       ''Handle final details, coordinate day-of logistics, and execute the event''
       5 ''1 week'' high]"

definition genericPlans :: "plan_draft list" where
  "genericPlans =
    [draft ''Goal Analysis & Requirements''
       ''Break down the goal into specific requirements and success criteria''
       1 ''2-3 days'' high,
     draft ''Resource Planning''
       ''Identify and secure necessary resources, tools, and support''
       2 ''3-5 days'' high,
     draft ''Implementation Phase''
       ''Execute the main work required to achieve your goal''
       3 ''2-4 weeks'' high,
     draft ''Review & Optimization''
       ''Review progress, make adjustments, and optimize your approach''
       4 ''3-5 days'' medium,
     draft ''Completion & Follow-up''
       ''Finalize deliverables and plan for maintenance or next steps''
       5 ''1-2 days'' medium]"

definition analyzeGoalAndCreatePlans :: "string \<Rightarrow> plan_draft list" where
  "analyzeGoalAndCreatePlans goal =
     (let lowerGoal = toLowerCase goal in
      if str_includes lowerGoal ''business'' \<or> str_includes lowerGoal ''startup''
           \<or> str_includes lowerGoal ''company''
      then businessPlans
      else if str_includes lowerGoal ''learn'' \<or> str_includes lowerGoal ''study''
           \<or> str_includes lowerGoal ''development''
      then learningPlans
      else if str_includes lowerGoal ''travel'' \<or> str_includes lowerGoal ''vacation''
           \<or> str_includes lowerGoal ''trip''
      then travelPlans
      else if str_includes lowerGoal ''event'' \<or> str_includes lowerGoal ''party''
           \<or> str_includes lowerGoal ''fundrais''
      then eventPlans
      else genericPlans)"

text \<open>
  The keyword groups of the specification, as an ordered table: the group, in the order
  business, learn, travel, event, and the keywords that select it.  It is compared with
  the conditionals of \<^const>\<open>analyzeGoalAndCreatePlans\<close> below.
\<close>

datatype keyword_group = Business | Learn | Travel | Event

fun groupKeywords :: "keyword_group \<Rightarrow> string list" where
  "groupKeywords Business = [''business'', ''startup'', ''company'']"
| "groupKeywords Learn = [''learn'', ''study'', ''development'']"
| "groupKeywords Travel = [''travel'', ''vacation'', ''trip'']"
| "groupKeywords Event = [''event'', ''party'', ''fundrais'']"

fun groupRank :: "keyword_group \<Rightarrow> nat" where
  "groupRank Business = 0"
| "groupRank Learn = 1"
| "groupRank Travel = 2"
| "groupRank Event = 3"

fun groupTemplate :: "keyword_group \<Rightarrow> plan_draft list" where
  "groupTemplate Business = businessPlans"
| "groupTemplate Learn = learningPlans"
| "groupTemplate Travel = travelPlans"
| "groupTemplate Event = eventPlans"

definition groupMatches :: "string \<Rightarrow> keyword_group \<Rightarrow> bool" where
  "groupMatches goal g = list_ex (str_includes (toLowerCase goal)) (groupKeywords g)"

section \<open>Inputs synthesised by the workflow runner\<close>

text \<open>\<^verbatim>\<open>TaskPlan\<close>: a stored plan step.  \<open>tp_id\<close> is the column \<^verbatim>\<open>id\<close>.\<close>

record TaskPlan = plan_draft +
  tp_id :: string
  goal_id :: string
  created_at :: string

datatype deployment_type = netlify_static | vercel_static | github_pages | custom_hosting

text \<open>\<^verbatim>\<open>Record<string, any>\<close> with string values, in insertion order.\<close>

type_synonym config = "(string \<times> string) list"

text \<open>The characters that the regular expression \<^verbatim>\<open>/[^a-z0-9]/g\<close> does not match.\<close>

definition isSlugChar :: "char \<Rightarrow> bool" where
  "isSlugChar c = (c \<in> set ''abcdefghijklmnopqrstuvwxyz0123456789'')"

text \<open>\<^verbatim>\<open>plan.title.toLowerCase().replace(/[^a-z0-9]/g, '-').substring(0, 30)\<close>\<close>

definition planSlug :: "string \<Rightarrow> string" where
  "planSlug t = take 30 (map (\<lambda>c. if isSlugChar c then c else CHR ''-'') (toLowerCase t))"

definition generateAutoDeploymentConfig ::
    "'a TaskPlan_scheme \<Rightarrow> deployment_type \<Rightarrow> config" where
  "generateAutoDeploymentConfig plan provider =
     (case provider of
        netlify_static \<Rightarrow>
          [(''subdomain'', planSlug (title plan)), (''buildCommand'', ''npm run build'')]
      | vercel_static \<Rightarrow>
          [(''projectName'', planSlug (title plan)), (''framework'', ''react'')]
      | github_pages \<Rightarrow>
          [(''username'', ''auto-user''), (''repository'', planSlug (title plan))]
      | _ \<Rightarrow> [])"

definition generateAutoResearchQuery :: "'a TaskPlan_scheme \<Rightarrow> string \<Rightarrow> string" where
  "generateAutoResearchQuery plan depth =
     (let baseQuery = title plan @ '' best practices and implementation guide'' in
      if depth = ''basic'' then ''Quick overview: '' @ baseQuery
      else if depth = ''comprehensive'' then
        ''Comprehensive analysis including market research, case studies, ''
          @ ''and detailed implementation for: '' @ baseQuery
      else ''Detailed research on '' @ baseQuery
          @ '' including tools, methods, and expert recommendations'')"

definition generateAutoExecutionInstructions :: "'a TaskPlan_scheme \<Rightarrow> string \<Rightarrow> string" where
  "generateAutoExecutionInstructions plan mode =
     (let baseInstructions =
            ''Create implementation for: '' @ title plan @ ''. ''
              @ (case description plan of Some d \<Rightarrow> d | None \<Rightarrow> []) in
      if mode = ''conservative'' then
        baseInstructions @ ''. Use simple, proven approaches with minimal dependencies.''
      else if mode = ''aggressive'' then
        baseInstructions @ ''. Use cutting-edge technologies and advanced features.''
      else baseInstructions
          @ ''. Use modern best practices with good balance of features and stability.'')"

section \<open>The persistence collaborator\<close>

text \<open>
  The hosted database and the edge function are outside the repository.  The supabase
  client never rejects a promise: every call resolves to \<^verbatim>\<open>{ data, error }\<close>.  The
  collaborator is modelled by the tables it holds and by an environment that decides,
  for the \<open>n\<close>-th call made to it, whether a write is accepted (\<open>write_ok\<close>) and what
  the edge function answers (\<open>research_agent\<close>).  An accepted insert stores the rows
  under fresh identifiers and returns them; a rejected write changes nothing and
  returns no data.  Timestamps that the database fills in are left out.

  The environment also supplies the text of the simulated outputs (generated code,
  script and API output, build logs), the clock and the random numbers: they fill the
  result rows and decide no control flow.
\<close>

datatype request_status = pending | in_progress | completed | failed

datatype error = Error string

record 'a request =
  req_id :: nat
  plan_id :: string
  req_input :: 'a
  req_status :: request_status

record 'p stored =
  row_id :: nat
  request_id :: nat
  payload :: 'p

record research_payload =
  source_url :: "string option"
  res_title :: string
  res_content :: string
  summary :: "string option"
  relevance_score :: int

datatype execution_type =
  code_generation | script_execution | api_call | file_creation | environment_setup

record execution_input =
  execution_type :: execution_type
  instructions :: string

datatype output_type = code_out | file_out | api_response | command_output | error_out

record execution_payload =
  output_type :: output_type
  exe_content :: string
  file_path :: "string option"
  exe_success :: bool
  exe_error_message :: "string option"

record deployment_input =
  execution_request_id :: "nat option"
  deployment_type :: deployment_type
  configuration :: config

record deployment_payload =
  deployment_url :: "string option"
  claim_url :: "string option"
  deploy_id :: "string option"
  dep_success :: bool
  dep_error_message :: "string option"
  build_logs :: "string option"

text \<open>What the edge function \<^verbatim>\<open>research-agent\<close> sends back: a result as it arrives
  (\<^verbatim>\<open>result: any\<close>), its optional fields absent or present.  The function of this
  repository computes every score as an integer, or as \<^verbatim>\<open>NaN\<close>, which JSON renders
  \<^verbatim>\<open>null\<close>.\<close>

record raw_result =
  raw_source_url :: "string option"
  raw_title :: string
  raw_content :: string
  raw_summary :: "string option"
  raw_relevance_score :: "int option"

datatype research_agent_data = Results "raw_result list" | No_results

record invoke_response =
  resp_data :: "research_agent_data option"
  resp_error :: "string option"

datatype depth = basic | detailed | comprehensive

record env =
  write_ok :: "nat \<Rightarrow> bool"
  research_agent :: "nat \<Rightarrow> string \<Rightarrow> depth \<Rightarrow> invoke_response"
  code_text :: "string \<Rightarrow> string \<Rightarrow> string"
  script_text :: "nat \<Rightarrow> string \<Rightarrow> string"
  api_text :: "nat \<Rightarrow> string \<Rightarrow> string"
  config_json_text :: "nat \<Rightarrow> string \<Rightarrow> string"
  readme_text :: "nat \<Rightarrow> string \<Rightarrow> string"
  setup_text :: "string \<Rightarrow> string"
  build_log_text :: "string \<Rightarrow> config \<Rightarrow> nat \<Rightarrow> string"
  date_now :: "nat \<Rightarrow> string"
  random_suffix :: "nat \<Rightarrow> string"

record world =
  research_requests :: "string request list"
  research_results :: "research_payload stored list"
  execution_requests :: "execution_input request list"
  execution_results :: "execution_payload stored list"
  deployment_requests :: "deployment_input request list"
  deployment_results :: "deployment_payload stored list"
  next_id :: nat
  tick :: nat
  console :: "(string \<times> error) list"

definition new_request :: "nat \<Rightarrow> string \<Rightarrow> 'a \<Rightarrow> 'a request" where
  "new_request n p x = \<lparr>req_id = n, plan_id = p, req_input = x, req_status = in_progress\<rparr>"

definition new_rows :: "nat \<Rightarrow> nat \<Rightarrow> 'p list \<Rightarrow> 'p stored list" where
  "new_rows n r ps =
     map (\<lambda>(i, p). \<lparr>row_id = n + i, request_id = r, payload = p\<rparr>) (enumerate 0 ps)"

definition set_status :: "nat \<Rightarrow> request_status \<Rightarrow> 'a request list \<Rightarrow> 'a request list" where
  "set_status r s qs = map (\<lambda>q. if req_id q = r then q\<lparr>req_status := s\<rparr> else q) qs"

text \<open>The status of the request with identifier \<open>r\<close>, if the table holds it.\<close>

definition requestStatus :: "'a request list \<Rightarrow> nat \<Rightarrow> request_status option" where
  "requestStatus qs r = map_option req_status (find (\<lambda>q. req_id q = r) qs)"

text \<open>Every stored request has an identifier below the next fresh one.\<close>

definition wf_world :: "world \<Rightarrow> bool" where
  "wf_world w =
     (list_all (\<lambda>q. req_id q < next_id w) (research_requests w)
      \<and> list_all (\<lambda>q. req_id q < next_id w) (execution_requests w)
      \<and> list_all (\<lambda>q. req_id q < next_id w) (deployment_requests w))"

subsection \<open>\<^verbatim>\<open>.from(table).insert(row).select().single()\<close> on the request tables\<close>

definition insert_research_request ::
    "env \<Rightarrow> world \<Rightarrow> string \<Rightarrow> string \<Rightarrow> world \<times> string request option" where
  "insert_research_request e w p x =
     (if write_ok e (tick w) then
        (w\<lparr>research_requests := research_requests w @ [new_request (next_id w) p x],
           next_id := Suc (next_id w), tick := Suc (tick w)\<rparr>,
         Some (new_request (next_id w) p x))
      else (w\<lparr>tick := Suc (tick w)\<rparr>, None))"

definition insert_execution_request ::
    "env \<Rightarrow> world \<Rightarrow> string \<Rightarrow> execution_input
      \<Rightarrow> world \<times> execution_input request option" where
  "insert_execution_request e w p x =
     (if write_ok e (tick w) then
        (w\<lparr>execution_requests := execution_requests w @ [new_request (next_id w) p x],
           next_id := Suc (next_id w), tick := Suc (tick w)\<rparr>,
         Some (new_request (next_id w) p x))
      else (w\<lparr>tick := Suc (tick w)\<rparr>, None))"

definition insert_deployment_request ::
    "env \<Rightarrow> world \<Rightarrow> string \<Rightarrow> deployment_input
      \<Rightarrow> world \<times> deployment_input request option" where
  "insert_deployment_request e w p x =
     (if write_ok e (tick w) then
        (w\<lparr>deployment_requests := deployment_requests w @ [new_request (next_id w) p x],
           next_id := Suc (next_id w), tick := Suc (tick w)\<rparr>,
         Some (new_request (next_id w) p x))
      else (w\<lparr>tick := Suc (tick w)\<rparr>, None))"

subsection \<open>\<^verbatim>\<open>.from(table).update({ status }).eq('id', id)\<close>\<close>

definition update_research_status ::
    "env \<Rightarrow> world \<Rightarrow> nat \<Rightarrow> request_status \<Rightarrow> world" where
  "update_research_status e w r s =
     (if write_ok e (tick w) then
        w\<lparr>research_requests := set_status r s (research_requests w), tick := Suc (tick w)\<rparr>
      else w\<lparr>tick := Suc (tick w)\<rparr>)"

definition update_execution_status ::
    "env \<Rightarrow> world \<Rightarrow> nat \<Rightarrow> request_status \<Rightarrow> world" where
  "update_execution_status e w r s =
     (if write_ok e (tick w) then
        w\<lparr>execution_requests := set_status r s (execution_requests w), tick := Suc (tick w)\<rparr>
      else w\<lparr>tick := Suc (tick w)\<rparr>)"

definition update_deployment_status ::
    "env \<Rightarrow> world \<Rightarrow> nat \<Rightarrow> request_status \<Rightarrow> world" where
  "update_deployment_status e w r s =
     (if write_ok e (tick w) then
        w\<lparr>deployment_requests := set_status r s (deployment_requests w),
           tick := Suc (tick w)\<rparr>
      else w\<lparr>tick := Suc (tick w)\<rparr>)"

subsection \<open>\<^verbatim>\<open>.from(table).insert(rows).select()\<close> on the result tables\<close>

definition insert_research_results ::
    "env \<Rightarrow> world \<Rightarrow> nat \<Rightarrow> research_payload list
      \<Rightarrow> world \<times> research_payload stored list option" where
  "insert_research_results e w r ps =
     (if write_ok e (tick w) then
        (w\<lparr>research_results := research_results w @ new_rows (next_id w) r ps,
           next_id := next_id w + length ps, tick := Suc (tick w)\<rparr>,
         Some (new_rows (next_id w) r ps))
      else (w\<lparr>tick := Suc (tick w)\<rparr>, None))"

definition insert_execution_results ::
    "env \<Rightarrow> world \<Rightarrow> nat \<Rightarrow> execution_payload list
      \<Rightarrow> world \<times> execution_payload stored list option" where
  "insert_execution_results e w r ps =
     (if write_ok e (tick w) then
        (w\<lparr>execution_results := execution_results w @ new_rows (next_id w) r ps,
           next_id := next_id w + length ps, tick := Suc (tick w)\<rparr>,
         Some (new_rows (next_id w) r ps))
      else (w\<lparr>tick := Suc (tick w)\<rparr>, None))"

text \<open>\<^verbatim>\<open>.from('deployment_results').insert(row).select().single()\<close>\<close>

definition insert_deployment_result ::
    "env \<Rightarrow> world \<Rightarrow> nat \<Rightarrow> deployment_payload
      \<Rightarrow> world \<times> deployment_payload stored option" where
  "insert_deployment_result e w r p =
     (if write_ok e (tick w) then
        (w\<lparr>deployment_results :=
             deployment_results w @ [\<lparr>row_id = next_id w, request_id = r, payload = p\<rparr>],
           next_id := Suc (next_id w), tick := Suc (tick w)\<rparr>,
         Some \<lparr>row_id = next_id w, request_id = r, payload = p\<rparr>)
      else (w\<lparr>tick := Suc (tick w)\<rparr>, None))"

text \<open>\<^verbatim>\<open>supabase.functions.invoke('research-agent', { body })\<close>\<close>

definition invoke_research_agent ::
    "env \<Rightarrow> world \<Rightarrow> string \<Rightarrow> depth \<Rightarrow> world \<times> invoke_response" where
  "invoke_research_agent e w q d =
     (w\<lparr>tick := Suc (tick w)\<rparr>, research_agent e (tick w) q d)"

section \<open>Research service: \<^verbatim>\<open>conductResearch\<close>\<close>

definition isWhiteSpace :: "char \<Rightarrow> bool" where
  "isWhiteSpace c =
     (c \<in> set [CHR 0x09, CHR 0x0A, CHR 0x0B, CHR 0x0C, CHR 0x0D, CHR 0x20, CHR 0xA0])"

definition trim :: "string \<Rightarrow> string" where
  "trim s = rev (dropWhile isWhiteSpace (rev (dropWhile isWhiteSpace s)))"

text \<open>\<^verbatim>\<open>x || null\<close> on an optional string: the empty string is falsy.\<close>

definition orNull :: "string option \<Rightarrow> string option" where
  "orNull x = (case x of Some s \<Rightarrow> if s = [] then None else Some s | None \<Rightarrow> None)"

text \<open>\<^verbatim>\<open>Math.min(10, Math.max(1, result.relevance_score || 5))\<close>: zero is falsy.\<close>

definition clampScore :: "int option \<Rightarrow> int" where
  "clampScore x =
     min 10 (max 1 (case x of Some n \<Rightarrow> if n = 0 then 5 else n | None \<Rightarrow> 5))"

text \<open>The function mapped over \<^verbatim>\<open>data.results\<close> (\<^verbatim>\<open>request_id\<close> is added by
  \<^const>\<open>new_rows\<close>).\<close>

definition resultToInsert :: "raw_result \<Rightarrow> research_payload" where
  "resultToInsert result =
     \<lparr>source_url = orNull (raw_source_url result),
      res_title = raw_title result,
      res_content = raw_content result,
      summary = orNull (raw_summary result),
      relevance_score = clampScore (raw_relevance_score result)\<rparr>"

definition fallbackResult ::
    "string \<Rightarrow> string \<Rightarrow> string \<Rightarrow> string \<Rightarrow> int \<Rightarrow> research_payload" where
  "fallbackResult u t c s n =
     \<lparr>source_url = Some u, res_title = t, res_content = c, summary = Some s,
      relevance_score = n\<rparr>"

text \<open>The five array literals of \<^verbatim>\<open>generateFallbackResults\<close>; \<^verbatim>\<open>${query}\<close> is spliced in.\<close>

definition marketResults :: "string \<Rightarrow> research_payload list" where
  "marketResults query =
    [fallbackResult ''https://marketresearch.com/industry-analysis''
        (''Market Analysis: ''
          @ query)
        (''Comprehensive market research for ''
          @ query
          @ '' indicates strong growth potential with emerging opportunities. ''
          @ ''Industry experts suggest focusing on digital transformation and ''
          @ ''customer experience improvements. Key market drivers include ''
          @ ''technological advancement and changing consumer preferences.'')
        (''Market shows growth potential with focus on digital transformation'')
        8,
     fallbackResult ''https://competitoranalysis.com/reports''
        (''Competitive Analysis: ''
          @ query)
        (''Competitive landscape analysis reveals opportunities for ''
          @ ''differentiation in ''
          @ query
          @ ''. Top competitors show strengths in established market presence but ''
          @ ''weaknesses in innovation and customer service. Market gaps exist in ''
          @ ''mobile experience and personalization.'')
        (''Competitive analysis shows opportunities for differentiation'')
        7,
     fallbackResult ''https://industryreport.com/trends''
        (''Industry Trends: ''
          @ query)
        (''Latest trends in ''
          @ query
          @ '' show increased adoption of AI and automation, sustainable practices, ''
          @ ''and customer-centric approaches. Industry growth rate projected at ''
          @ ''12-15% annually with significant investment in technology ''
          @ ''infrastructure.'')
        (''Industry trends favor AI adoption and sustainable practices'')
        8]"

definition learningResults :: "string \<Rightarrow> research_payload list" where
  "learningResults query =
    [fallbackResult ''https://education-platform.com/courses''
        (''Learning Path: ''
          @ query)
        (''Structured learning approach for ''
          @ query
          @ '' includes foundational concepts, hands-on practice, and real-world ''
          @ ''projects. Recommended timeline: 3-6 months for proficiency. Key ''
          @ ''resources include online courses, documentation, and community forums.'')
        (''Structured 3-6 month learning path with hands-on practice'')
        9,
     fallbackResult ''https://skillassessment.com/reports''
        (''Skills Assessment: ''
          @ query)
        (''Current market demand for ''
          @ query
          @ '' skills shows 25% year-over-year growth. Top employers seek practical ''
          @ ''experience and portfolio projects. Average learning time: 200-400 hours ''
          @ ''for proficiency. High demand in tech, finance, and healthcare sectors.'')
        (''25% growth in demand, 200-400 hours typical learning time'')
        8,
     fallbackResult ''https://learningresources.com/guides''
        (''Resource Guide: ''
          @ query)
        (''Comprehensive resource compilation for ''
          @ query
          @ '' including free and paid options. Best practices include combining ''
          @ ''theoretical study with practical projects, joining communities, and ''
          @ ''seeking mentorship. Success rate higher with structured approach.'')
        (''Comprehensive resources with emphasis on practical projects'')
        7]"

definition travelResults :: "string \<Rightarrow> research_payload list" where
  "travelResults query =
    [fallbackResult ''https://travel-guide.com/destinations''
        (''Travel Guide: ''
          @ query)
        (''Complete travel information for ''
          @ query
          @ '' including best times to visit, must-see attractions, local customs, ''
          @ ''and practical tips. Budget estimates, transportation options, and ''
          @ ''accommodation recommendations included. Safety guidelines and cultural ''
          @ ''considerations provided.'')
        (''Complete travel guide with budget estimates and cultural tips'')
        9,
     fallbackResult ''https://travel-costs.com/calculator''
        (''Travel Costs: ''
          @ query)
        (''Detailed cost breakdown for ''
          @ query
          @ '' including accommodation ($50-200/night), meals ($30-80/day), ''
          @ ''transportation, and activities. Seasonal price variations and ''
          @ ''money-saving tips. Budget options and luxury alternatives compared.'')
        (''Detailed cost breakdown with budget and luxury options'')
        8,
     fallbackResult ''https://travel-requirements.com/info''
        (''Travel Requirements: ''
          @ query)
        (''Current travel requirements including visa policies, vaccination ''
          @ ''requirements, and documentation needed. Entry procedures, customs ''
          @ ''regulations, and travel insurance recommendations. Updated health and ''
          @ ''safety protocols.'')
        (''Current travel requirements and health protocols'')
        8]"

definition technologyResults :: "string \<Rightarrow> research_payload list" where
  "technologyResults query =
    [fallbackResult ''https://tech-analysis.com/reviews''
        (''Technology Review: ''
          @ query)
        (''In-depth technical analysis of ''
          @ query
          @ '' covering features, performance, scalability, and implementation ''
          @ ''considerations. Comparison with alternatives, pros/cons analysis, and ''
          @ ''real-world case studies. Expert recommendations and best practices.'')
        (''Technical analysis with performance metrics and case studies'')
        9,
     fallbackResult ''https://implementation-guide.com/tutorials''
        (''Implementation Guide: ''
          @ query)
        (''Step-by-step implementation guide for ''
          @ query
          @ '' including setup instructions, configuration options, and common ''
          @ ''troubleshooting solutions. Code examples, architecture patterns, and ''
          @ ''optimization techniques provided.'')
        (''Step-by-step implementation with code examples'')
        8,
     fallbackResult ''https://tech-trends.com/analysis''
        (''Technology Trends: ''
          @ query)
        (''Current trends and future outlook for ''
          @ query
          @ '' in the technology landscape. Adoption rates, market leaders, emerging ''
          @ ''alternatives, and investment trends. Impact on business operations and ''
          @ ''competitive advantages.'')
        (''Technology trends and market adoption analysis'')
        7]"

definition genericResults :: "string \<Rightarrow> research_payload list" where
  "genericResults query =
    [fallbackResult ''https://research-database.com/analysis''
        (''Comprehensive Analysis: ''
          @ query)
        (''Detailed research findings for ''
          @ query
          @ '' based on current data and expert analysis. Key insights include market ''
          @ ''opportunities, implementation strategies, and success factors. Multiple ''
          @ ''perspectives and case studies provide comprehensive understanding.'')
        (''Comprehensive research findings and expert analysis for ''
          @ query)
        7,
     fallbackResult ''https://expert-insights.com/reports''
        (''Expert Insights: ''
          @ query)
        (''Professional analysis and recommendations for ''
          @ query
          @ '' from industry experts. Covers best practices, common challenges, and ''
          @ ''proven solutions. Strategic considerations and tactical implementation ''
          @ ''approaches discussed.'')
        (''Expert recommendations and best practices'')
        8,
     fallbackResult ''https://case-studies.com/examples''
        (''Case Studies: ''
          @ query)
        (''Real-world examples and case studies related to ''
          @ query
          @ ''. Success stories, lessons learned, and practical applications ''
          @ ''demonstrated. Measurable outcomes and implementation timelines provided ''
          @ ''for reference.'')
        (''Real-world case studies with measurable outcomes'')
        6]"

definition generateFallbackResults :: "string \<Rightarrow> research_payload list" where
  "generateFallbackResults query =
     (let lowerQuery = toLowerCase query in
      if str_includes lowerQuery ''market'' \<or> str_includes lowerQuery ''business''
           \<or> str_includes lowerQuery ''competitor''
      then marketResults query
      else if str_includes lowerQuery ''learn'' \<or> str_includes lowerQuery ''course''
           \<or> str_includes lowerQuery ''development'' \<or> str_includes lowerQuery ''skill''
      then learningResults query
      else if str_includes lowerQuery ''travel'' \<or> str_includes lowerQuery ''destination''
           \<or> str_includes lowerQuery ''vacation''
      then travelResults query
      else if str_includes lowerQuery ''technology'' \<or> str_includes lowerQuery ''software''
           \<or> str_includes lowerQuery ''app'' \<or> str_includes lowerQuery ''web''
      then technologyResults query
      else genericResults query)"

text \<open>What \<^verbatim>\<open>conductResearch\<close> resolves to: rows as the database returned them, or the
  fallback results held in memory.\<close>

datatype research_return =
  Saved "research_payload stored list" | Unsaved "research_payload list"

text \<open>The body of the \<^verbatim>\<open>try\<close> block: \<open>Inl\<close> is the error thrown inside it.\<close>

definition research_try ::
    "env \<Rightarrow> world \<Rightarrow> string request \<Rightarrow> string \<Rightarrow> depth
      \<Rightarrow> world \<times> (error + research_payload stored list)" where
  "research_try e w request query d =
     (case invoke_research_agent e w (trim query) d of (w1, resp) \<Rightarrow>
        (case resp_error resp of
           Some msg \<Rightarrow> (w1, Inl (Error (''Research function error: '' @ msg)))
         | None \<Rightarrow>
            (case resp_data resp of
               None \<Rightarrow> (w1, Inl (Error ''No research results returned''))
             | Some No_results \<Rightarrow> (w1, Inl (Error ''No research results returned''))
             | Some (Results results) \<Rightarrow>
                (case insert_research_results e w1 (req_id request)
                        (map resultToInsert results) of
                   (w2, None) \<Rightarrow> (w2, Inl (Error ''Failed to save research results''))
                 | (w2, Some savedResults) \<Rightarrow>
                     (update_research_status e w2 (req_id request) completed,
                      Inr savedResults)))))"

text \<open>The \<^verbatim>\<open>catch\<close> block.  The insert of the fallback rows resolves even when it is
  rejected, so \<^verbatim>\<open>savedResults || fallbackResults\<close> decides what is returned.\<close>

definition research_catch ::
    "env \<Rightarrow> world \<Rightarrow> string request \<Rightarrow> string \<Rightarrow> error \<Rightarrow> world \<times> research_return" where
  "research_catch e w request query err =
     (let w1 = w\<lparr>console := console w @ [(''Research error:'', err)]\<rparr>;
          w2 = update_research_status e w1 (req_id request) failed;
          fallbackResults = generateFallbackResults query;
          resultsToInsert =
            map (\<lambda>result. result\<lparr>source_url := orNull (source_url result),
                                  summary := orNull (summary result)\<rparr>) fallbackResults
      in case insert_research_results e w2 (req_id request) resultsToInsert of
           (w3, Some savedResults) \<Rightarrow> (w3, Saved savedResults)
         | (w3, None) \<Rightarrow> (w3, Unsaved fallbackResults))"

definition conductResearch ::
    "env \<Rightarrow> world \<Rightarrow> string \<Rightarrow> string \<Rightarrow> depth \<Rightarrow> world \<times> (error + research_return)" where
  "conductResearch e w planId query d =
     (case insert_research_request e w planId query of
        (w1, None) \<Rightarrow> (w1, Inl (Error ''Failed to create research request''))
      | (w1, Some request) \<Rightarrow>
         (case research_try e w1 request query d of
            (w2, Inr savedResults) \<Rightarrow> (w2, Inr (Saved savedResults))
          | (w2, Inl err) \<Rightarrow>
             (case research_catch e w2 request query err of (w3, res) \<Rightarrow> (w3, Inr res))))"

section \<open>Execution service: \<^verbatim>\<open>executeTask\<close>\<close>

definition detectCodeType :: "string \<Rightarrow> string" where
  "detectCodeType ins =
     (let lower = toLowerCase ins in
      if str_includes lower ''react'' \<or> str_includes lower ''component'' then ''react''
      else if str_includes lower ''api'' \<or> str_includes lower ''endpoint'' then ''api''
      else if str_includes lower ''database'' \<or> str_includes lower ''sql'' then ''database''
      else if str_includes lower ''html'' \<or> str_includes lower ''webpage'' then ''html''
      else if str_includes lower ''css'' \<or> str_includes lower ''style'' then ''css''
      else if str_includes lower ''python'' then ''python''
      else if str_includes lower ''node'' \<or> str_includes lower ''javascript''
        then ''javascript''
      else ''general'')"

definition executionResult :: "output_type \<Rightarrow> string \<Rightarrow> string option \<Rightarrow> execution_payload" where
  "executionResult ty c p =
     \<lparr>output_type = ty, exe_content = c, file_path = p, exe_success = True,
      exe_error_message = None\<rparr>"

text \<open>The simulated agents: each resolves after a timer, with the rows below.  The second
  argument is the number of calls made to the collaborator so far; it stands for the
  time at which the text is produced.\<close>

definition generateCode :: "env \<Rightarrow> string \<Rightarrow> execution_payload list" where
  "generateCode e ins =
     [executionResult code_out (code_text e (detectCodeType ins) ins) None]"

definition executeScript :: "env \<Rightarrow> nat \<Rightarrow> string \<Rightarrow> execution_payload list" where
  "executeScript e t ins = [executionResult command_output (script_text e t ins) None]"

definition makeApiCall :: "env \<Rightarrow> nat \<Rightarrow> string \<Rightarrow> execution_payload list" where
  "makeApiCall e t ins = [executionResult api_response (api_text e t ins) None]"

definition generateFiles :: "env \<Rightarrow> nat \<Rightarrow> string \<Rightarrow> (string \<times> string) list" where
  "generateFiles e t ins =
     [(''generated/config.json'', config_json_text e t ins),
      (''generated/README.md'', readme_text e t ins)]"

definition createFiles :: "env \<Rightarrow> nat \<Rightarrow> string \<Rightarrow> execution_payload list" where
  "createFiles e t ins =
     map (\<lambda>(path, content). executionResult file_out content (Some path))
       (generateFiles e t ins)"

definition setupEnvironment :: "env \<Rightarrow> string \<Rightarrow> execution_payload list" where
  "setupEnvironment e ins = [executionResult command_output (setup_text e ins) None]"

text \<open>The \<^verbatim>\<open>switch\<close> of \<^verbatim>\<open>performExecution\<close>.  Its \<^verbatim>\<open>default\<close> branch, which throws,
  is not reached: \<^typ>\<open>execution_type\<close> holds the five values of the union type.\<close>

definition performExecution ::
    "env \<Rightarrow> nat \<Rightarrow> execution_type \<Rightarrow> string \<Rightarrow> error + execution_payload list" where
  "performExecution e t executionType ins =
     (case executionType of
        code_generation \<Rightarrow> Inr (generateCode e ins)
      | script_execution \<Rightarrow> Inr (executeScript e t ins)
      | api_call \<Rightarrow> Inr (makeApiCall e t ins)
      | file_creation \<Rightarrow> Inr (createFiles e t ins)
      | environment_setup \<Rightarrow> Inr (setupEnvironment e ins))"

definition errorMessage :: "error \<Rightarrow> string" where
  "errorMessage err = (case err of Error msg \<Rightarrow> msg)"

text \<open>The body of the \<^verbatim>\<open>try\<close> block.\<close>

definition execution_try ::
    "env \<Rightarrow> world \<Rightarrow> execution_input request \<Rightarrow> string
      \<Rightarrow> world \<times> (error + execution_payload stored list)" where
  "execution_try e w request ins =
     (case performExecution e (tick w) (execution_type (req_input request)) ins of
        Inl err \<Rightarrow> (w, Inl err)
      | Inr results \<Rightarrow>
         (case insert_execution_results e w (req_id request) results of
            (w1, None) \<Rightarrow> (w1, Inl (Error ''Failed to save execution results''))
          | (w1, Some savedResults) \<Rightarrow>
              (update_execution_status e w1 (req_id request) completed, Inr savedResults)))"

text \<open>The \<^verbatim>\<open>catch\<close> block: it stores an error row, marks the request failed and throws
  the error again.\<close>

definition execution_catch ::
    "env \<Rightarrow> world \<Rightarrow> execution_input request \<Rightarrow> error \<Rightarrow> world \<times> error" where
  "execution_catch e w request err =
     (let w1 = fst (insert_execution_results e w (req_id request)
                 [\<lparr>output_type = error_out, exe_content = errorMessage err, file_path = None,
                   exe_success = False, exe_error_message = Some (errorMessage err)\<rparr>]);
          w2 = update_execution_status e w1 (req_id request) failed
      in (w2, err))"

definition executeTask ::
    "env \<Rightarrow> world \<Rightarrow> string \<Rightarrow> execution_type \<Rightarrow> string
      \<Rightarrow> world \<times> (error + execution_payload stored list)" where
  "executeTask e w planId executionType ins =
     (case insert_execution_request e w planId
             \<lparr>execution_type = executionType, instructions = ins\<rparr> of
        (w1, None) \<Rightarrow> (w1, Inl (Error ''Failed to create execution request''))
      | (w1, Some request) \<Rightarrow>
         (case execution_try e w1 request ins of
            (w2, Inr savedResults) \<Rightarrow> (w2, Inr savedResults)
          | (w2, Inl err) \<Rightarrow>
             (case execution_catch e w2 request err of (w3, err') \<Rightarrow> (w3, Inl err'))))"

section \<open>Deployment service: \<^verbatim>\<open>deployProject\<close>\<close>

text \<open>\<^verbatim>\<open>config[key] || fallback\<close>\<close>

definition configOr :: "config \<Rightarrow> string \<Rightarrow> string \<Rightarrow> string" where
  "configOr c key fallback =
     (case map_of c key of Some v \<Rightarrow> if v = [] then fallback else v | None \<Rightarrow> fallback)"

definition deployToNetlify :: "env \<Rightarrow> nat \<Rightarrow> config \<Rightarrow> deployment_payload" where
  "deployToNetlify e t c =
     (let deployId = ''netlify-'' @ date_now e t;
          subdomain = configOr c ''subdomain'' (''project-'' @ random_suffix e t)
      in \<lparr>deployment_url = Some (''https://'' @ subdomain @ ''.netlify.app''),
          claim_url = Some (''https://app.netlify.com/sites/'' @ subdomain @ ''/overview''),
          deploy_id = Some deployId,
          dep_success = True,
          dep_error_message = None,
          build_logs = Some (build_log_text e ''Netlify'' c t)\<rparr>)"

definition deployToVercel :: "env \<Rightarrow> nat \<Rightarrow> config \<Rightarrow> deployment_payload" where
  "deployToVercel e t c =
     (let deployId = ''vercel-'' @ date_now e t;
          subdomain = configOr c ''subdomain'' (''project-'' @ random_suffix e t)
      in \<lparr>deployment_url = Some (''https://'' @ subdomain @ ''.vercel.app''),
          claim_url = Some ''https://vercel.com/dashboard'',
          deploy_id = Some deployId,
          dep_success = True,
          dep_error_message = None,
          build_logs = Some (build_log_text e ''Vercel'' c t)\<rparr>)"

definition deployToGitHub :: "env \<Rightarrow> nat \<Rightarrow> config \<Rightarrow> deployment_payload" where
  "deployToGitHub e t c =
     (let username = configOr c ''username'' ''user'';
          repository = configOr c ''repository'' ''project''
      in \<lparr>deployment_url = Some (''https://'' @ username @ ''.github.io/'' @ repository),
          claim_url = None,
          deploy_id = Some (''github-'' @ date_now e t),
          dep_success = True,
          dep_error_message = None,
          build_logs = Some (build_log_text e ''GitHub Pages'' c t)\<rparr>)"

definition deployToCustomHost :: "env \<Rightarrow> nat \<Rightarrow> config \<Rightarrow> deployment_payload" where
  "deployToCustomHost e t c =
     (let domain = configOr c ''domain'' ''example.com''
      in \<lparr>deployment_url = Some (''https://'' @ domain),
          claim_url = None,
          deploy_id = Some (''custom-'' @ date_now e t),
          dep_success = True,
          dep_error_message = None,
          build_logs = Some (build_log_text e ''Custom Host'' c t)\<rparr>)"

text \<open>The \<^verbatim>\<open>switch\<close> of \<^verbatim>\<open>performDeployment\<close>.  Its \<^verbatim>\<open>default\<close> branch, which throws,
  is not reached: \<^typ>\<open>deployment_type\<close> holds the four values of the union type.\<close>

definition performDeployment ::
    "env \<Rightarrow> nat \<Rightarrow> deployment_input request \<Rightarrow> config \<Rightarrow> error + deployment_payload" where
  "performDeployment e t request c =
     (case deployment_type (req_input request) of
        netlify_static \<Rightarrow> Inr (deployToNetlify e t c)
      | vercel_static \<Rightarrow> Inr (deployToVercel e t c)
      | github_pages \<Rightarrow> Inr (deployToGitHub e t c)
      | custom_hosting \<Rightarrow> Inr (deployToCustomHost e t c))"

text \<open>The body of the \<^verbatim>\<open>try\<close> block.\<close>

definition deployment_try ::
    "env \<Rightarrow> world \<Rightarrow> deployment_input request \<Rightarrow> config
      \<Rightarrow> world \<times> (error + deployment_payload stored)" where
  "deployment_try e w request c =
     (case performDeployment e (tick w) request c of
        Inl err \<Rightarrow> (w, Inl err)
      | Inr result \<Rightarrow>
         (case insert_deployment_result e w (req_id request) result of
            (w1, None) \<Rightarrow> (w1, Inl (Error ''Failed to save deployment result''))
          | (w1, Some savedResult) \<Rightarrow>
              (update_deployment_status e w1 (req_id request)
                 (if dep_success result then completed else failed),
               Inr savedResult)))"

text \<open>The \<^verbatim>\<open>catch\<close> block: it stores an error row and marks the request failed; it
  returns the stored error row when there is one, and throws the error again
  otherwise.\<close>

definition deployment_catch ::
    "env \<Rightarrow> world \<Rightarrow> deployment_input request \<Rightarrow> error
      \<Rightarrow> world \<times> (error + deployment_payload stored)" where
  "deployment_catch e w request err =
     (case insert_deployment_result e w (req_id request)
             \<lparr>deployment_url = None, claim_url = None, deploy_id = None,
              dep_success = False, dep_error_message = Some (errorMessage err),
              build_logs = None\<rparr> of
        (w1, errorResult) \<Rightarrow>
          (let w2 = update_deployment_status e w1 (req_id request) failed
           in case errorResult of
                Some row \<Rightarrow> (w2, Inr row)
              | None \<Rightarrow> (w2, Inl err)))"

definition deployProject ::
    "env \<Rightarrow> world \<Rightarrow> string \<Rightarrow> deployment_type \<Rightarrow> config \<Rightarrow> nat option
      \<Rightarrow> world \<times> (error + deployment_payload stored)" where
  "deployProject e w planId deploymentType c executionRequestId =
     (case insert_deployment_request e w planId
             \<lparr>execution_request_id = executionRequestId, deployment_type = deploymentType,
              configuration = c\<rparr> of
        (w1, None) \<Rightarrow> (w1, Inl (Error ''Failed to create deployment request''))
      | (w1, Some request) \<Rightarrow>
         (case deployment_try e w1 request c of
            (w2, Inr savedResult) \<Rightarrow> (w2, Inr savedResult)
          | (w2, Inl err) \<Rightarrow> deployment_catch e w2 request err))"

section \<open>Workflow runner: \<^verbatim>\<open>handleAutoStartAll\<close>\<close>

record AutoStartPreferences =
  enableResearch :: bool
  enableExecution :: bool
  enableDeployment :: bool
  autoProgressDelay :: nat
  researchDepth :: string
  executionMode :: string
  deploymentProvider :: deployment_type
  pauseBetweenTasks :: bool

datatype phase = Research | Execution | Deployment

text \<open>The state of the component \<^verbatim>\<open>PlanVisualization\<close> that the runner writes.\<close>

record component =
  expandedPlans :: "string set"
  startedTasks :: "string set"
  isAutoRunning :: bool
  currentAutoTask :: "string option"
  currentAutoPhase :: "phase option"
  autoPreferences :: "AutoStartPreferences option"
  completedAutoTasks :: "string set"

text \<open>A recorder invocation, with its arguments: the log a test double would keep.\<close>

datatype invocation =
  ConductResearch string string
| ExecuteTask string execution_type string
| DeployProject string deployment_type config

record run =
  comp :: component
  world :: world
  calls :: "invocation list"

text \<open>
  Each phase of the \<^verbatim>\<open>try\<close> block returns the error its recorder threw, if any.  The
  timers (\<^verbatim>\<open>await delay(...)\<close>) only suspend the runner and are left out.
  \<^verbatim>\<open>conductResearch\<close> is called with two arguments, so its depth is the default
  \<^verbatim>\<open>'detailed'\<close>.
\<close>

definition researchPhase ::
    "env \<Rightarrow> AutoStartPreferences \<Rightarrow> TaskPlan \<Rightarrow> run \<Rightarrow> run \<times> error option" where
  "researchPhase e preferences plan r =
     (if enableResearch preferences then
        (let r1 = r\<lparr>comp := (comp r)\<lparr>currentAutoPhase := Some Research\<rparr>\<rparr>;
             researchQuery = generateAutoResearchQuery plan (researchDepth preferences)
         in case conductResearch e (world r1) (tp_id plan) researchQuery detailed of
              (w, res) \<Rightarrow>
                (r1\<lparr>world := w,
                    calls := calls r1 @ [ConductResearch (tp_id plan) researchQuery]\<rparr>,
                 case res of Inl err \<Rightarrow> Some err | Inr _ \<Rightarrow> None))
      else (r, None))"

definition executionPhase ::
    "env \<Rightarrow> AutoStartPreferences \<Rightarrow> TaskPlan \<Rightarrow> run \<Rightarrow> run \<times> error option" where
  "executionPhase e preferences plan r =
     (if enableExecution preferences then
        (let r1 = r\<lparr>comp := (comp r)\<lparr>currentAutoPhase := Some Execution\<rparr>\<rparr>;
             executionInstructions =
               generateAutoExecutionInstructions plan (executionMode preferences)
         in case executeTask e (world r1) (tp_id plan) code_generation
                   executionInstructions of
              (w, res) \<Rightarrow>
                (r1\<lparr>world := w,
                    calls := calls r1
                      @ [ExecuteTask (tp_id plan) code_generation executionInstructions]\<rparr>,
                 case res of Inl err \<Rightarrow> Some err | Inr _ \<Rightarrow> None))
      else (r, None))"

definition deploymentPhase ::
    "env \<Rightarrow> AutoStartPreferences \<Rightarrow> TaskPlan \<Rightarrow> run \<Rightarrow> run \<times> error option" where
  "deploymentPhase e preferences plan r =
     (if enableDeployment preferences then
        (let r1 = r\<lparr>comp := (comp r)\<lparr>currentAutoPhase := Some Deployment\<rparr>\<rparr>;
             deploymentConfig =
               generateAutoDeploymentConfig plan (deploymentProvider preferences)
         in case deployProject e (world r1) (tp_id plan) (deploymentProvider preferences)
                   deploymentConfig None of
              (w, res) \<Rightarrow>
                (r1\<lparr>world := w,
                    calls := calls r1
                      @ [DeployProject (tp_id plan) (deploymentProvider preferences)
                           deploymentConfig]\<rparr>,
                 case res of Inl err \<Rightarrow> Some err | Inr _ \<Rightarrow> None))
      else (r, None))"

text \<open>The body of the loop after the \<^verbatim>\<open>break\<close> test: \<^verbatim>\<open>setCurrentAutoTask\<close>, then
  the \<^verbatim>\<open>try\<close> block, whose first throwing phase skips the rest of it, and the
  \<^verbatim>\<open>catch\<close> block, which logs the error to the console.\<close>

definition autoStep :: "env \<Rightarrow> AutoStartPreferences \<Rightarrow> TaskPlan \<Rightarrow> run \<Rightarrow> run" where
  "autoStep e preferences plan r =
     (let r0 = r\<lparr>comp := (comp r)\<lparr>currentAutoTask := Some (tp_id plan)\<rparr>\<rparr>;
          caught = (\<lambda>r' err.
            r'\<lparr>world := (world r')\<lparr>console := console (world r')
               @ [(''Error in auto-execution for plan '' @ tp_id plan @ '':'', err)]\<rparr>\<rparr>)
      in case researchPhase e preferences plan r0 of
           (r1, Some err) \<Rightarrow> caught r1 err
         | (r1, None) \<Rightarrow>
            (case executionPhase e preferences plan r1 of
               (r2, Some err) \<Rightarrow> caught r2 err
             | (r2, None) \<Rightarrow>
                (case deploymentPhase e preferences plan r2 of
                   (r3, Some err) \<Rightarrow> caught r3 err
                 | (r3, None) \<Rightarrow>
                     r3\<lparr>comp := (comp r3)\<lparr>completedAutoTasks :=
                          insert (tp_id plan) (completedAutoTasks (comp r3))\<rparr>\<rparr>)))"

text \<open>
  The \<^verbatim>\<open>for\<close> loop.  \<open>captured\<close> is the constant \<^verbatim>\<open>isAutoRunning\<close> which the closure
  \<^verbatim>\<open>handleAutoStartAll\<close> captured: the value the state had in the render that created
  the closure.  \<^verbatim>\<open>setIsAutoRunning\<close> writes the state of the component and does not
  change the captured constant, so every iteration tests the same value.
\<close>

fun autoLoop ::
    "env \<Rightarrow> bool \<Rightarrow> AutoStartPreferences \<Rightarrow> TaskPlan list \<Rightarrow> run \<Rightarrow> run" where
  "autoLoop e captured preferences [] r = r"
| "autoLoop e captured preferences (plan # rest) r =
     (if \<not> captured then r
      else autoLoop e captured preferences rest (autoStep e preferences plan r))"

definition handleAutoStartAll ::
    "env \<Rightarrow> bool \<Rightarrow> TaskPlan list \<Rightarrow> AutoStartPreferences \<Rightarrow> run \<Rightarrow> run" where
  "handleAutoStartAll e captured plans preferences r =
     (let r1 = r\<lparr>comp := (comp r)\<lparr>autoPreferences := Some preferences,
                                   isAutoRunning := True,
                                   startedTasks := set (map tp_id plans),
                                   expandedPlans := set (map tp_id plans)\<rparr>\<rparr>;
          r2 = autoLoop e captured preferences plans r1
      in r2\<lparr>comp := (comp r2)\<lparr>isAutoRunning := False, currentAutoTask := None,
                                 currentAutoPhase := None\<rparr>\<rparr>)"

text \<open>\<^verbatim>\<open>stopAutoExecution\<close>, the handler of the Stop button.\<close>

definition stopAutoExecution :: "run \<Rightarrow> run" where
  "stopAutoExecution r =
     r\<lparr>comp := (comp r)\<lparr>isAutoRunning := False, currentAutoTask := None,
                             currentAutoPhase := None\<rparr>\<rparr>"

text \<open>The state when the page shows a plan and nothing has run: the empty tables, and the
  component as \<^verbatim>\<open>React.useState\<close> initialises it.\<close>

definition emptyWorld :: world where
  "emptyWorld =
     \<lparr>research_requests = [], research_results = [], execution_requests = [],
      execution_results = [], deployment_requests = [], deployment_results = [],
      next_id = 0, tick = 0, console = []\<rparr>"

definition initialRun :: run where
  "initialRun =
     \<lparr>comp = \<lparr>expandedPlans = {}, startedTasks = {}, isAutoRunning = False,
              currentAutoTask = None, currentAutoPhase = None, autoPreferences = None,
              completedAutoTasks = {}\<rparr>,
      world = emptyWorld, calls = []\<rparr>"

section \<open>Auxiliary notions and test doubles\<close>

text \<open>The results in an answer of the edge function that the \<^verbatim>\<open>try\<close> block of
  \<^verbatim>\<open>conductResearch\<close> accepts: no error, and a \<^verbatim>\<open>data\<close> object with \<^verbatim>\<open>results\<close>.\<close>

definition agentResults :: "invoke_response \<Rightarrow> raw_result list option" where
  "agentResults resp =
     (case resp_error resp of
        Some msg \<Rightarrow> None
      | None \<Rightarrow> (case resp_data resp of Some (Results rs) \<Rightarrow> Some rs | _ \<Rightarrow> None))"

text \<open>A collaborator for concrete runs: \<open>ok\<close> says which calls are accepted writes,
  \<open>agent\<close> is the answer of the edge function to each call; every text is empty.\<close>

definition testEnv :: "(nat \<Rightarrow> bool) \<Rightarrow> (nat \<Rightarrow> invoke_response) \<Rightarrow> env" where
  "testEnv ok agent =
     \<lparr>write_ok = ok,
      research_agent = (\<lambda>t q d. agent t),
      code_text = (\<lambda>ty ins. []),
      script_text = (\<lambda>t ins. []),
      api_text = (\<lambda>t ins. []),
      config_json_text = (\<lambda>t ins. []),
      readme_text = (\<lambda>t ins. []),
      setup_text = (\<lambda>ins. []),
      build_log_text = (\<lambda>provider c t. []),
      date_now = (\<lambda>t. ''0''),
      random_suffix = (\<lambda>t. ''a'')\<rparr>"

definition sampleResults :: "raw_result list" where
  "sampleResults =
     [\<lparr>raw_source_url = None, raw_title = ''Summary'', raw_content = ''Text'',
       raw_summary = None, raw_relevance_score = Some 12\<rparr>,
      \<lparr>raw_source_url = Some ''https://example.org'', raw_title = ''Topic'',
       raw_content = ''More text'', raw_summary = Some ''Short'',
       raw_relevance_score = None\<rparr>]"

definition agentAnswers :: invoke_response where
  "agentAnswers = \<lparr>resp_data = Some (Results sampleResults), resp_error = None\<rparr>"

definition agentDown :: invoke_response where
  "agentDown = \<lparr>resp_data = None, resp_error = Some ''Failed to send a request''\<rparr>"

definition samplePlan :: TaskPlan where
  "samplePlan =
     \<lparr>title = ''Market Research & Validation'', description = Some ''Research your market'',
      sequence_order = 1, estimated_duration = Some ''2-3 weeks'', priority = high,
      status = plan_pending, tp_id = ''plan-1'', goal_id = ''goal-1'',
      created_at = ''2025-06-10''\<rparr>"

definition allPhases :: AutoStartPreferences where
  "allPhases =
     \<lparr>enableResearch = True, enableExecution = True, enableDeployment = True,
      autoProgressDelay = 5, researchDepth = ''detailed'', executionMode = ''standard'',
      deploymentProvider = netlify_static, pauseBetweenTasks = True\<rparr>"

text \<open>The status of a request that was created \<^const>\<open>in_progress\<close>, after one status
  update to \<open>s\<close>: the update takes effect when the collaborator accepts it.\<close>

definition statusWritten :: "bool \<Rightarrow> request_status \<Rightarrow> request_status" where
  "statusWritten accepted s = (if accepted then s else in_progress)"

text \<open>The three recorder invocations of one plan step, in the order of the phases.\<close>

definition stepCalls :: "AutoStartPreferences \<Rightarrow> TaskPlan \<Rightarrow> invocation list" where
  "stepCalls preferences plan =
     [ConductResearch (tp_id plan)
        (generateAutoResearchQuery plan (researchDepth preferences)),
      ExecuteTask (tp_id plan) code_generation
        (generateAutoExecutionInstructions plan (executionMode preferences)),
      DeployProject (tp_id plan) (deploymentProvider preferences)
        (generateAutoDeploymentConfig plan (deploymentProvider preferences))]"

text \<open>The fields of the component that no phase of a step writes.\<close>

definition keeps :: "run \<Rightarrow> run \<Rightarrow> bool" where
  "keeps r r' =
     (expandedPlans (comp r') = expandedPlans (comp r)
      \<and> startedTasks (comp r') = startedTasks (comp r)
      \<and> isAutoRunning (comp r') = isAutoRunning (comp r)
      \<and> autoPreferences (comp r') = autoPreferences (comp r)
      \<and> completedAutoTasks (comp r') = completedAutoTasks (comp r))"

text \<open>An answer of the edge function with one result, whose score is 0.\<close>

definition zeroScoreResult :: raw_result where
  "zeroScoreResult =
     \<lparr>raw_source_url = None, raw_title = ''Weak match'', raw_content = ''Text'',
      raw_summary = None, raw_relevance_score = Some 0\<rparr>"

definition agentZero :: invoke_response where
  "agentZero = \<lparr>resp_data = Some (Results [zeroScoreResult]), resp_error = None\<rparr>"

text \<open>The line that the \<^verbatim>\<open>catch\<close> block of the runner's loop writes to the console.\<close>

definition stepErrorLine :: "TaskPlan \<Rightarrow> error \<Rightarrow> string \<times> error" where
  "stepErrorLine plan err = (''Error in auto-execution for plan '' @ tp_id plan @ '':'', err)"

text \<open>The row that the \<^verbatim>\<open>catch\<close> block of \<^verbatim>\<open>executeTask\<close> tries to insert.\<close>

definition executionErrorRow :: "error \<Rightarrow> execution_payload" where
  "executionErrorRow err =
     \<lparr>output_type = error_out, exe_content = errorMessage err, file_path = None,
      exe_success = False, exe_error_message = Some (errorMessage err)\<rparr>"

section \<open>Verified properties\<close>

subsection \<open>Evaluation of the string functions\<close>

lemmas lower_eval =
  toLowerCase_def toLowerCaseChar_def upperCaseLetters_def lowerCaseLetters_def

lemma toLowerCase_length: "length (toLowerCase s) = length s"
  by (simp add: toLowerCase_def)

lemma toLowerCase_nth: "i < length s \<Longrightarrow> toLowerCase s ! i = toLowerCaseChar (s ! i)"
  by (simp add: toLowerCase_def)

subsection \<open>Plan templates\<close>

text \<open>The conditionals of \<^const>\<open>analyzeGoalAndCreatePlans\<close> test the keyword groups of
  the table, in the order of the table.\<close>

lemma analyze_cases:
  "analyzeGoalAndCreatePlans goal =
     (if groupMatches goal Business then businessPlans
      else if groupMatches goal Learn then learningPlans
      else if groupMatches goal Travel then travelPlans
      else if groupMatches goal Event then eventPlans
      else genericPlans)"
  by (simp add: analyzeGoalAndCreatePlans_def groupMatches_def Let_def)

lemma template_lengths:
  "length businessPlans = 5" "length learningPlans = 5" "length travelPlans = 4"
  "length eventPlans = 5" "length genericPlans = 5"
  by (simp_all add: businessPlans_def learningPlans_def travelPlans_def eventPlans_def
        genericPlans_def)

text \<open>
  Claim C3, as amended.  For every goal string \<^const>\<open>analyzeGoalAndCreatePlans\<close> returns a
  non-empty list.  The list has five plan-step drafts when the business, learn, event or
  generic template is selected, and four when the travel template is selected, that is,
  when the lower-cased goal holds a travel keyword and no business or learn keyword.
\<close>

theorem analyzeGoalAndCreatePlans_size:
  "analyzeGoalAndCreatePlans goal \<noteq> []
   \<and> length (analyzeGoalAndCreatePlans goal) =
       (if \<not> groupMatches goal Business \<and> \<not> groupMatches goal Learn
            \<and> groupMatches goal Travel
        then 4 else 5)"
proof -
  have "length (analyzeGoalAndCreatePlans goal) =
       (if \<not> groupMatches goal Business \<and> \<not> groupMatches goal Learn
            \<and> groupMatches goal Travel
        then 4 else 5)"
    by (simp add: analyze_cases template_lengths)
  moreover from this have "analyzeGoalAndCreatePlans goal \<noteq> []"
    by (auto split: if_splits)
  ultimately show ?thesis by simp
qed

text \<open>
  Claim C3 as stated fails: the goal ``Plan a trip to Japan'' selects the travel
  template, which has four items, not five.
\<close>

theorem analyzeGoalAndCreatePlans_travel_has_four:
  "analyzeGoalAndCreatePlans ''Plan a trip to Japan'' = travelPlans
   \<and> length (analyzeGoalAndCreatePlans ''Plan a trip to Japan'') = 4
   \<and> length (analyzeGoalAndCreatePlans ''Plan a trip to Japan'') \<noteq> 5"
proof -
  have "analyzeGoalAndCreatePlans ''Plan a trip to Japan'' = travelPlans"
    by (simp add: analyzeGoalAndCreatePlans_def lower_eval)
  then show ?thesis by (simp add: template_lengths)
qed

text \<open>
  Claim C4.  The template is that of the first keyword group, in the order business,
  learn, travel, event, that has a keyword in the lower-cased goal: if group \<open>g\<close> matches
  and no group before \<open>g\<close> does, the template of \<open>g\<close> is returned, whichever later groups
  match as well; if no group matches, the generic template is returned.  The goal
  ``learn to travel'' yields the learn template.
\<close>

theorem keyword_precedence:
  "(groupMatches goal g
      \<and> (\<forall>g'. groupRank g' < groupRank g \<longrightarrow> \<not> groupMatches goal g')
      \<longrightarrow> analyzeGoalAndCreatePlans goal = groupTemplate g)
   \<and> ((\<forall>g'. \<not> groupMatches goal g') \<longrightarrow> analyzeGoalAndCreatePlans goal = genericPlans)
   \<and> analyzeGoalAndCreatePlans ''learn to travel'' = learningPlans"
proof (intro conjI impI)
  assume h: "groupMatches goal g
      \<and> (\<forall>g'. groupRank g' < groupRank g \<longrightarrow> \<not> groupMatches goal g')"
  then have earlier: "\<And>g'. groupRank g' < groupRank g \<Longrightarrow> \<not> groupMatches goal g'"
    by blast
  show "analyzeGoalAndCreatePlans goal = groupTemplate g"
  proof (cases g)
    case Business
    with h show ?thesis by (simp add: analyze_cases)
  next
    case Learn
    with earlier [of Business] h show ?thesis by (simp add: analyze_cases)
  next
    case Travel
    with earlier [of Business] earlier [of Learn] h show ?thesis
      by (simp add: analyze_cases)
  next
    case Event
    with earlier [of Business] earlier [of Learn] earlier [of Travel] h show ?thesis
      by (simp add: analyze_cases)
  qed
next
  assume "\<forall>g'. \<not> groupMatches goal g'"
  then show "analyzeGoalAndCreatePlans goal = genericPlans"
    by (simp add: analyze_cases)
next
  show "analyzeGoalAndCreatePlans ''learn to travel'' = learningPlans"
    by (simp add: analyzeGoalAndCreatePlans_def lower_eval)
qed

text \<open>Witness for C4: ``learn to travel'' matches the learn and the travel group and not
  the business group, and gets the learn template, which is not the travel template;
  ``get fit'' matches no group and gets the generic template.\<close>

theorem keyword_precedence_witness:
  "groupMatches ''learn to travel'' Learn \<and> groupMatches ''learn to travel'' Travel
   \<and> \<not> groupMatches ''learn to travel'' Business
   \<and> analyzeGoalAndCreatePlans ''learn to travel'' = groupTemplate Learn
   \<and> groupTemplate Learn \<noteq> groupTemplate Travel
   \<and> analyzeGoalAndCreatePlans ''get fit'' = genericPlans"
proof -
  have m: "groupMatches ''learn to travel'' Learn" "groupMatches ''learn to travel'' Travel"
    and nb: "\<not> groupMatches ''learn to travel'' Business"
    by (simp_all add: groupMatches_def lower_eval)
  have before: "\<forall>g'. groupRank g' < groupRank Learn \<longrightarrow> \<not> groupMatches ''learn to travel'' g'"
  proof (intro allI impI)
    fix g' assume "groupRank g' < groupRank Learn"
    then have "g' = Business" by (cases g') simp_all
    with nb show "\<not> groupMatches ''learn to travel'' g'" by simp
  qed
  have none: "\<forall>g'. \<not> groupMatches ''get fit'' g'"
  proof
    fix g' show "\<not> groupMatches ''get fit'' g'"
      by (cases g') (simp_all add: groupMatches_def lower_eval)
  qed
  from keyword_precedence [of "''learn to travel''" Learn] m before
  have a: "analyzeGoalAndCreatePlans ''learn to travel'' = groupTemplate Learn" by blast
  from keyword_precedence [of "''get fit''" Learn] none
  have b: "analyzeGoalAndCreatePlans ''get fit'' = genericPlans" by blast
  have c: "groupTemplate Learn \<noteq> groupTemplate Travel"
    by (simp add: learningPlans_def travelPlans_def)
  from m nb a b c show ?thesis by simp
qed

subsection \<open>The deployment slug\<close>

text \<open>
  Claim C8.  The slug of a plan title has the first 30 characters of the title, each
  lower-cased and, when the lower-cased character is outside \<^verbatim>\<open>[a-z0-9]\<close>, replaced
  with \<^verbatim>\<open>-\<close>; it is the value that \<^const>\<open>generateAutoDeploymentConfig\<close> stores under the
  provider's key.  The title ``Market Research & Validation!!'' yields
  ``market-research---validation--''.
\<close>

theorem planSlug_characterisation:
  "length (planSlug t) = min 30 (length t)
   \<and> (\<forall>i < length (planSlug t).
         planSlug t ! i =
           (if isSlugChar (toLowerCaseChar (t ! i)) then toLowerCaseChar (t ! i)
            else CHR ''-''))
   \<and> map_of (generateAutoDeploymentConfig (plan\<lparr>title := t\<rparr>) netlify_static) ''subdomain''
       = Some (planSlug t)
   \<and> map_of (generateAutoDeploymentConfig (plan\<lparr>title := t\<rparr>) vercel_static) ''projectName''
       = Some (planSlug t)
   \<and> map_of (generateAutoDeploymentConfig (plan\<lparr>title := t\<rparr>) github_pages) ''repository''
       = Some (planSlug t)
   \<and> planSlug ''Market Research & Validation!!'' = ''market-research---validation--''"
proof (intro conjI allI impI)
  show "length (planSlug t) = min 30 (length t)"
    by (simp add: planSlug_def toLowerCase_length min.commute)
next
  fix i assume "i < length (planSlug t)"
  then have i: "i < 30" "i < length t"
    by (simp_all add: planSlug_def toLowerCase_length)
  then show "planSlug t ! i =
      (if isSlugChar (toLowerCaseChar (t ! i)) then toLowerCaseChar (t ! i) else CHR ''-'')"
    by (simp add: planSlug_def toLowerCase_length toLowerCase_nth)
next
  show "planSlug ''Market Research & Validation!!'' = ''market-research---validation--''"
    by (simp add: planSlug_def isSlugChar_def lower_eval)
qed (simp_all add: generateAutoDeploymentConfig_def)

text \<open>Witness for C8: a title of 45 characters, whose character 16 is \<^verbatim>\<open>&\<close>.\<close>

theorem planSlug_characterisation_witness:
  "(16::nat) < length (planSlug ''Legal Structure & Registration of the Company'')
   \<and> length (planSlug ''Legal Structure & Registration of the Company'') = 30
   \<and> planSlug ''Legal Structure & Registration of the Company'' ! 16 = CHR ''-''
   \<and> planSlug ''Legal Structure & Registration of the Company'' ! 0 = CHR ''l''"
proof -
  let ?t = "''Legal Structure & Registration of the Company''"
  note spec = planSlug_characterisation [of ?t]
  from spec have l0: "length (planSlug ?t) = min 30 (length ?t)" by (rule conjunct1)
  have "length ?t = 45" by simp
  with l0 have len: "length (planSlug ?t) = 30" by simp
  note nth = spec [THEN conjunct2, THEN conjunct1]
  from nth len have "planSlug ?t ! 16 =
      (if isSlugChar (toLowerCaseChar (?t ! 16)) then toLowerCaseChar (?t ! 16) else CHR ''-'')"
    by simp
  then have a: "planSlug ?t ! 16 = CHR ''-''"
    by (simp add: isSlugChar_def lower_eval)
  from nth len have "planSlug ?t ! 0 =
      (if isSlugChar (toLowerCaseChar (?t ! 0)) then toLowerCaseChar (?t ! 0) else CHR ''-'')"
    by simp
  then have b: "planSlug ?t ! 0 = CHR ''l''"
    by (simp add: isSlugChar_def lower_eval)
  from len a b show ?thesis by simp
qed

subsection \<open>Tables\<close>

lemma find_append_new:
  "list_all (\<lambda>q. req_id q < n) qs \<Longrightarrow>
   find (\<lambda>q. req_id q = n) (qs @ [new_request n p x]) = Some (new_request n p x)"
  by (induction qs) (auto simp: new_request_def)

lemma requestStatus_new:
  "list_all (\<lambda>q. req_id q < n) qs \<Longrightarrow>
   requestStatus (qs @ [new_request n p x]) n = Some in_progress"
  by (simp add: requestStatus_def find_append_new) (simp add: new_request_def)

lemma requestStatus_set_status:
  "requestStatus (set_status r s qs) r = map_option (\<lambda>_. s) (requestStatus qs r)"
  by (induction qs) (auto simp: requestStatus_def set_status_def)

lemma req_id_new_request: "req_id (new_request n p x) = n"
  by (simp add: new_request_def)

lemma req_input_new_request: "req_input (new_request n p x) = x"
  by (simp add: new_request_def)

lemma payload_rows:
  "map payload (map (\<lambda>(i, p). \<lparr>row_id = n + i, request_id = r, payload = p\<rparr>)
     (enumerate k ps)) = ps"
  by (induction ps arbitrary: k) simp_all

lemma new_rows_payload: "map payload (new_rows n r ps) = ps"
  unfolding new_rows_def by (rule payload_rows)

subsection \<open>The recorders, path by path\<close>

lemmas research_defs =
  conductResearch_def research_try_def research_catch_def insert_research_request_def
  insert_research_results_def update_research_status_def invoke_research_agent_def

lemmas execution_defs =
  executeTask_def execution_try_def execution_catch_def insert_execution_request_def
  insert_execution_results_def update_execution_status_def performExecution_def

lemmas deployment_defs =
  deployProject_def deployment_try_def deployment_catch_def insert_deployment_request_def
  insert_deployment_result_def update_deployment_status_def performDeployment_def

lemmas deploy_stub_defs =
  deployToNetlify_def deployToVercel_def deployToGitHub_def deployToCustomHost_def

text \<open>The fallback results have a source and a summary, so \<^verbatim>\<open>|| null\<close> leaves them as
  they are.\<close>

lemma fallback_orNull:
  "map (\<lambda>result. result\<lparr>source_url := orNull (source_url result),
                         summary := orNull (summary result)\<rparr>) (generateFallbackResults q)
   = generateFallbackResults q"
  by (simp add: generateFallbackResults_def Let_def marketResults_def learningResults_def
        travelResults_def technologyResults_def genericResults_def fallbackResult_def
        orNull_def)

text \<open>When each recorder raises.\<close>

lemma conductResearch_raises:
  "isl (snd (conductResearch e w p q d)) = (\<not> write_ok e (tick w))"
  by (simp add: research_defs Let_def req_id_new_request
        split: option.splits research_agent_data.splits prod.splits)

lemma executeTask_raises:
  "isl (snd (executeTask e w p ty ins)) =
     (\<not> (write_ok e (tick w) \<and> write_ok e (Suc (tick w))))"
  by (cases ty)
    (simp_all add: execution_defs req_id_new_request req_input_new_request Let_def)

lemma deployProject_raises:
  "isl (snd (deployProject e w p ty c x)) =
     (\<not> (write_ok e (tick w)
          \<and> (write_ok e (Suc (tick w)) \<or> write_ok e (Suc (Suc (tick w))))))"
  by (cases ty)
    (simp_all add: deployment_defs req_id_new_request req_input_new_request Let_def)

text \<open>The status of the request after each recorder has resolved.\<close>

lemma conductResearch_status:
  assumes "wf_world w" "write_ok e (tick w)"
  shows "requestStatus (research_requests (fst (conductResearch e w p q d))) (next_id w) =
     Some (case agentResults (research_agent e (Suc (tick w)) (trim q) d) of
             Some rs \<Rightarrow>
               (if write_ok e (tick w + 2)
                then (if write_ok e (tick w + 3) then completed else in_progress)
                else (if write_ok e (tick w + 3) then failed else in_progress))
           | None \<Rightarrow> (if write_ok e (tick w + 2) then failed else in_progress))"
  using assms
  by (simp add: research_defs Let_def req_id_new_request agentResults_def wf_world_def
        requestStatus_set_status requestStatus_new eval_nat_numeral
        split: option.splits research_agent_data.splits)

lemma executeTask_status:
  assumes "wf_world w" "write_ok e (tick w)"
  shows "requestStatus (execution_requests (fst (executeTask e w p ty ins))) (next_id w) =
     Some (if write_ok e (tick w + 1)
           then (if write_ok e (tick w + 2) then completed else in_progress)
           else (if write_ok e (tick w + 3) then failed else in_progress))"
  using assms
  by (cases ty)
    (simp_all add: execution_defs wf_world_def requestStatus_set_status requestStatus_new
       req_id_new_request req_input_new_request Let_def eval_nat_numeral)

lemma deployProject_status:
  assumes "wf_world w" "write_ok e (tick w)"
  shows "requestStatus (deployment_requests (fst (deployProject e w p ty c x))) (next_id w) =
     Some (if write_ok e (tick w + 1)
           then (if write_ok e (tick w + 2) then completed else in_progress)
           else (if write_ok e (tick w + 3) then failed else in_progress))"
  using assms
  by (cases ty)
    (simp_all add: deployment_defs wf_world_def requestStatus_set_status requestStatus_new
       req_id_new_request req_input_new_request eval_nat_numeral deploy_stub_defs Let_def)

text \<open>The failure path of \<^verbatim>\<open>conductResearch\<close> and its success path.\<close>

lemma conductResearch_fallback:
  assumes "write_ok e (tick w)"
    and "agentResults (research_agent e (Suc (tick w)) (trim q) d) = None
         \<or> \<not> write_ok e (tick w + 2)"
  shows "snd (conductResearch e w p q d) =
     Inr (if write_ok e
               (if agentResults (research_agent e (Suc (tick w)) (trim q) d) = None
                then tick w + 3 else tick w + 4)
          then Saved (new_rows (Suc (next_id w)) (next_id w) (generateFallbackResults q))
          else Unsaved (generateFallbackResults q))"
  using assms
  by (auto simp add: research_defs Let_def req_id_new_request agentResults_def
        eval_nat_numeral fallback_orNull
        split: option.splits research_agent_data.splits)

lemma conductResearch_success:
  assumes "write_ok e (tick w)"
    and "agentResults (research_agent e (Suc (tick w)) (trim q) d) = Some rs"
    and "write_ok e (tick w + 2)"
  shows "snd (conductResearch e w p q d) =
           Inr (Saved (new_rows (Suc (next_id w)) (next_id w) (map resultToInsert rs)))"
    and "research_results (fst (conductResearch e w p q d)) =
           research_results w
             @ new_rows (Suc (next_id w)) (next_id w) (map resultToInsert rs)"
  using assms
  by (auto simp add: research_defs Let_def req_id_new_request agentResults_def
        eval_nat_numeral
        split: option.splits research_agent_data.splits)

lemma clampScore_range: "1 \<le> clampScore x \<and> clampScore x \<le> 10"
  by (simp add: clampScore_def split: option.splits)

lemma list_all_payload:
  "list_all (\<lambda>row. Q (payload row)) rows = list_all Q (map payload rows)"
  by (induction rows) simp_all

lemma list_all_new_rows:
  "list_all (\<lambda>row. Q (payload row)) (new_rows n r ps) = list_all Q ps"
  by (simp only: list_all_payload new_rows_payload)

lemma deployProject_failure:
  assumes "write_ok e (tick w)" "\<not> write_ok e (tick w + 1)"
  shows "snd (deployProject e w p ty c x) =
     (if write_ok e (tick w + 2)
      then Inr \<lparr>row_id = Suc (next_id w), request_id = next_id w,
                payload = \<lparr>deployment_url = None, claim_url = None, deploy_id = None,
                   dep_success = False,
                   dep_error_message = Some ''Failed to save deployment result'',
                   build_logs = None\<rparr>\<rparr>
      else Inl (Error ''Failed to save deployment result''))"
   and "write_ok e (tick w + 2) \<longrightarrow>
        deployment_results (fst (deployProject e w p ty c x)) = deployment_results w @
          [\<lparr>row_id = Suc (next_id w), request_id = next_id w,
                payload = \<lparr>deployment_url = None, claim_url = None, deploy_id = None,
                   dep_success = False,
                   dep_error_message = Some ''Failed to save deployment result'',
                   build_logs = None\<rparr>\<rparr>]"
  using assms
  by (cases ty; simp add: deployment_defs req_id_new_request req_input_new_request Let_def
        eval_nat_numeral errorMessage_def)+

subsection \<open>The workflow runner, step by step\<close>

lemma autoLoop_stale: "autoLoop e False preferences plans r = r"
  by (cases plans) simp_all

lemma no_raise: "\<not> isl x \<Longrightarrow> (case x of Inl err \<Rightarrow> Some err | Inr v \<Rightarrow> None) = None"
  by (cases x) simp_all

lemmas phase_defs = researchPhase_def executionPhase_def deploymentPhase_def

lemma researchPhase_keeps: "keeps r (fst (researchPhase e preferences plan r))"
  by (simp add: keeps_def researchPhase_def Let_def case_prod_unfold)

lemma executionPhase_keeps: "keeps r (fst (executionPhase e preferences plan r))"
  by (simp add: keeps_def executionPhase_def Let_def case_prod_unfold)

lemma deploymentPhase_keeps: "keeps r (fst (deploymentPhase e preferences plan r))"
  by (simp add: keeps_def deploymentPhase_def Let_def case_prod_unfold)

lemma autoStep_unfold:
  "autoStep e preferences plan r =
     (let r0 = r\<lparr>comp := (comp r)\<lparr>currentAutoTask := Some (tp_id plan)\<rparr>\<rparr>;
          caught = (\<lambda>r' err.
            r'\<lparr>world := (world r')\<lparr>console := console (world r')
               @ [(''Error in auto-execution for plan '' @ tp_id plan @ '':'', err)]\<rparr>\<rparr>);
          p1 = researchPhase e preferences plan r0;
          p2 = executionPhase e preferences plan (fst p1);
          p3 = deploymentPhase e preferences plan (fst p2)
      in case snd p1 of Some err \<Rightarrow> caught (fst p1) err
         | None \<Rightarrow>
            (case snd p2 of Some err \<Rightarrow> caught (fst p2) err
             | None \<Rightarrow>
                (case snd p3 of Some err \<Rightarrow> caught (fst p3) err
                 | None \<Rightarrow> (fst p3)\<lparr>comp := (comp (fst p3))\<lparr>completedAutoTasks :=
                          insert (tp_id plan) (completedAutoTasks (comp (fst p3)))\<rparr>\<rparr>)))"
  by (simp add: autoStep_def Let_def case_prod_unfold)

lemma autoStep_keeps:
  "expandedPlans (comp (autoStep e preferences plan r)) = expandedPlans (comp r)
   \<and> startedTasks (comp (autoStep e preferences plan r)) = startedTasks (comp r)
   \<and> isAutoRunning (comp (autoStep e preferences plan r)) = isAutoRunning (comp r)
   \<and> autoPreferences (comp (autoStep e preferences plan r)) = autoPreferences (comp r)
   \<and> completedAutoTasks (comp r) \<subseteq> completedAutoTasks (comp (autoStep e preferences plan r))
   \<and> completedAutoTasks (comp (autoStep e preferences plan r))
       \<subseteq> insert (tp_id plan) (completedAutoTasks (comp r))"
proof -
  define r0 where "r0 = r\<lparr>comp := (comp r)\<lparr>currentAutoTask := Some (tp_id plan)\<rparr>\<rparr>"
  define p1 where "p1 = researchPhase e preferences plan r0"
  define p2 where "p2 = executionPhase e preferences plan (fst p1)"
  define p3 where "p3 = deploymentPhase e preferences plan (fst p2)"
  have k0: "keeps r r0" by (simp add: keeps_def r0_def)
  have k1: "keeps r0 (fst p1)" unfolding p1_def by (rule researchPhase_keeps)
  have k2: "keeps (fst p1) (fst p2)" unfolding p2_def by (rule executionPhase_keeps)
  have k3: "keeps (fst p2) (fst p3)" unfolding p3_def by (rule deploymentPhase_keeps)
  from k0 k1 k2 k3 show ?thesis
    unfolding autoStep_unfold Let_def r0_def [symmetric] p1_def [symmetric]
      p2_def [symmetric] p3_def [symmetric]
    by (auto simp: keeps_def split: option.splits)
qed

lemma autoLoop_keeps:
  "expandedPlans (comp (autoLoop e captured preferences plans r)) = expandedPlans (comp r)
   \<and> startedTasks (comp (autoLoop e captured preferences plans r)) = startedTasks (comp r)
   \<and> autoPreferences (comp (autoLoop e captured preferences plans r))
       = autoPreferences (comp r)
   \<and> completedAutoTasks (comp r)
       \<subseteq> completedAutoTasks (comp (autoLoop e captured preferences plans r))
   \<and> completedAutoTasks (comp (autoLoop e captured preferences plans r))
       \<subseteq> completedAutoTasks (comp r) \<union> set (map tp_id plans)"
proof (induction plans arbitrary: r)
  case Nil
  show ?case by simp
next
  case (Cons plan rest)
  show ?case
  proof (cases captured)
    case False
    then show ?thesis by auto
  next
    case True
    note step = autoStep_keeps [of e preferences plan r]
    note ih = Cons.IH [of "autoStep e preferences plan r"]
    from True have u: "autoLoop e captured preferences (plan # rest) r
        = autoLoop e captured preferences rest (autoStep e preferences plan r)" by simp
    from step ih show ?thesis unfolding u by auto
  qed
qed

text \<open>
  With a flag that reads true, all three phases enabled and a collaborator that accepts
  every write, no recorder raises and every step invokes the three recorders in the
  order of the phases: \<open>N\<close> steps make \<open>3 * N\<close> invocations, step by step.
\<close>

lemma autoStep_calls_ok:
  assumes "\<forall>t. write_ok e t"
    and "enableResearch preferences" "enableExecution preferences"
      "enableDeployment preferences"
  shows "calls (autoStep e preferences plan r) = calls r @ stepCalls preferences plan"
proof -
  have a: "\<And>w p q d. \<not> isl (snd (conductResearch e w p q d))"
    by (simp add: conductResearch_raises assms)
  have b: "\<And>w p ty ins. \<not> isl (snd (executeTask e w p ty ins))"
    by (simp add: executeTask_raises assms)
  have c: "\<And>w p ty c x. \<not> isl (snd (deployProject e w p ty c x))"
    by (simp add: deployProject_raises assms)
  show ?thesis
    by (simp add: autoStep_def phase_defs Let_def case_prod_unfold assms no_raise a b c
          stepCalls_def)
qed

lemma autoLoop_calls_ok:
  assumes "\<forall>t. write_ok e t"
    and "enableResearch preferences" "enableExecution preferences"
      "enableDeployment preferences"
  shows "calls (autoLoop e True preferences plans r) =
           calls r @ concat (map (stepCalls preferences) plans)"
  by (induction plans arbitrary: r) (simp_all add: autoStep_calls_ok assms)

lemma handleAutoStartAll_live_flag_order:
  assumes "\<forall>t. write_ok e t"
    and "enableResearch preferences" "enableExecution preferences"
      "enableDeployment preferences"
  shows "calls (handleAutoStartAll e True plans preferences r) =
           calls r @ concat (map (stepCalls preferences) plans)"
    and "length (calls (handleAutoStartAll e True plans preferences r)) =
           length (calls r) + 3 * length plans"
proof -
  show c: "calls (handleAutoStartAll e True plans preferences r) =
           calls r @ concat (map (stepCalls preferences) plans)"
    by (simp add: handleAutoStartAll_def Let_def autoLoop_calls_ok assms)
  have "length (concat (map (stepCalls preferences) plans)) = 3 * length plans"
    by (induction plans) (simp_all add: stepCalls_def)
  with c show "length (calls (handleAutoStartAll e True plans preferences r)) =
           length (calls r) + 3 * length plans"
    by simp
qed

subsection \<open>What a step reports\<close>

lemma researchPhase_result:
  "world (fst (researchPhase e preferences plan r)) =
     (if enableResearch preferences
      then fst (conductResearch e (world r) (tp_id plan)
                 (generateAutoResearchQuery plan (researchDepth preferences)) detailed)
      else world r)"
  "snd (researchPhase e preferences plan r) =
     (if enableResearch preferences
      then (case snd (conductResearch e (world r) (tp_id plan)
                 (generateAutoResearchQuery plan (researchDepth preferences)) detailed) of
              Inl err \<Rightarrow> Some err | Inr v \<Rightarrow> None)
      else None)"
  by (simp_all add: researchPhase_def Let_def case_prod_unfold)

lemma executionPhase_result:
  "world (fst (executionPhase e preferences plan r)) =
     (if enableExecution preferences
      then fst (executeTask e (world r) (tp_id plan) code_generation
                 (generateAutoExecutionInstructions plan (executionMode preferences)))
      else world r)"
  "snd (executionPhase e preferences plan r) =
     (if enableExecution preferences
      then (case snd (executeTask e (world r) (tp_id plan) code_generation
                 (generateAutoExecutionInstructions plan (executionMode preferences))) of
              Inl err \<Rightarrow> Some err | Inr v \<Rightarrow> None)
      else None)"
  by (simp_all add: executionPhase_def Let_def case_prod_unfold)

lemma deploymentPhase_result:
  "world (fst (deploymentPhase e preferences plan r)) =
     (if enableDeployment preferences
      then fst (deployProject e (world r) (tp_id plan) (deploymentProvider preferences)
                 (generateAutoDeploymentConfig plan (deploymentProvider preferences)) None)
      else world r)"
  "snd (deploymentPhase e preferences plan r) =
     (if enableDeployment preferences
      then (case snd (deployProject e (world r) (tp_id plan) (deploymentProvider preferences)
                 (generateAutoDeploymentConfig plan (deploymentProvider preferences)) None) of
              Inl err \<Rightarrow> Some err | Inr v \<Rightarrow> None)
      else None)"
  by (simp_all add: deploymentPhase_def Let_def case_prod_unfold)

text \<open>
  The outcome of a step in terms of its recorder invocations: the first invocation that
  raises ends the step, its error is appended to the console and the plan is not marked
  completed; when none raises, the plan is marked completed and nothing is appended.
\<close>

lemma autoStep_report:
  fixes e preferences plan r
  defines "q \<equiv> generateAutoResearchQuery plan (researchDepth preferences)"
    and "ins \<equiv> generateAutoExecutionInstructions plan (executionMode preferences)"
    and "cfg \<equiv> generateAutoDeploymentConfig plan (deploymentProvider preferences)"
  defines "x1 \<equiv> conductResearch e (world r) (tp_id plan) q detailed"
  defines "w1 \<equiv> (if enableResearch preferences then fst x1 else world r)"
  defines "x2 \<equiv> executeTask e w1 (tp_id plan) code_generation ins"
  defines "w2 \<equiv> (if enableExecution preferences then fst x2 else w1)"
  defines "x3 \<equiv> deployProject e w2 (tp_id plan) (deploymentProvider preferences) cfg None"
  defines "w3 \<equiv> (if enableDeployment preferences then fst x3 else w2)"
  defines "s \<equiv> autoStep e preferences plan r"
  shows "enableResearch preferences \<and> snd x1 = Inl err \<longrightarrow>
           console (world s) = console w1 @ [stepErrorLine plan err]
           \<and> completedAutoTasks (comp s) = completedAutoTasks (comp r)"
    and "\<not> (enableResearch preferences \<and> isl (snd x1))
         \<and> enableExecution preferences \<and> snd x2 = Inl err \<longrightarrow>
           console (world s) = console w2 @ [stepErrorLine plan err]
           \<and> completedAutoTasks (comp s) = completedAutoTasks (comp r)"
    and "\<not> (enableResearch preferences \<and> isl (snd x1))
         \<and> \<not> (enableExecution preferences \<and> isl (snd x2))
         \<and> enableDeployment preferences \<and> snd x3 = Inl err \<longrightarrow>
           console (world s) = console w3 @ [stepErrorLine plan err]
           \<and> completedAutoTasks (comp s) = completedAutoTasks (comp r)"
    and "\<not> (enableResearch preferences \<and> isl (snd x1))
         \<and> \<not> (enableExecution preferences \<and> isl (snd x2))
         \<and> \<not> (enableDeployment preferences \<and> isl (snd x3)) \<longrightarrow>
           console (world s) = console w3
           \<and> completedAutoTasks (comp s) = insert (tp_id plan) (completedAutoTasks (comp r))"
proof -
  define r0 where "r0 = r\<lparr>comp := (comp r)\<lparr>currentAutoTask := Some (tp_id plan)\<rparr>\<rparr>"
  define p1 where "p1 = researchPhase e preferences plan r0"
  define p2 where "p2 = executionPhase e preferences plan (fst p1)"
  define p3 where "p3 = deploymentPhase e preferences plan (fst p2)"
  have k0: "keeps r r0" by (simp add: keeps_def r0_def)
  have k1: "keeps r0 (fst p1)" unfolding p1_def by (rule researchPhase_keeps)
  have k2: "keeps (fst p1) (fst p2)" unfolding p2_def by (rule executionPhase_keeps)
  have k3: "keeps (fst p2) (fst p3)" unfolding p3_def by (rule deploymentPhase_keeps)
  have c1: "completedAutoTasks (comp (fst p1)) = completedAutoTasks (comp r)"
    and c2: "completedAutoTasks (comp (fst p2)) = completedAutoTasks (comp r)"
    and c3: "completedAutoTasks (comp (fst p3)) = completedAutoTasks (comp r)"
    using k0 k1 k2 k3 by (simp_all add: keeps_def)
  have w0: "world r0 = world r" by (simp add: r0_def)
  have a1: "world (fst p1) = w1"
    and e1: "snd p1 = (if enableResearch preferences
        then (case snd x1 of Inl err \<Rightarrow> Some err | Inr v \<Rightarrow> None) else None)"
    by (simp_all add: p1_def researchPhase_result w0 w1_def x1_def q_def)
  have a2: "world (fst p2) = w2"
    and e2: "snd p2 = (if enableExecution preferences
        then (case snd x2 of Inl err \<Rightarrow> Some err | Inr v \<Rightarrow> None) else None)"
    by (simp_all add: p2_def executionPhase_result a1 w2_def x2_def ins_def)
  have a3: "world (fst p3) = w3"
    and e3: "snd p3 = (if enableDeployment preferences
        then (case snd x3 of Inl err \<Rightarrow> Some err | Inr v \<Rightarrow> None) else None)"
    by (simp_all add: p3_def deploymentPhase_result a2 w3_def x3_def cfg_def)
  have u: "s = (case snd p1 of Some err \<Rightarrow>
                 (fst p1)\<lparr>world := (world (fst p1))\<lparr>console := console (world (fst p1))
                     @ [stepErrorLine plan err]\<rparr>\<rparr>
         | None \<Rightarrow>
            (case snd p2 of Some err \<Rightarrow>
                 (fst p2)\<lparr>world := (world (fst p2))\<lparr>console := console (world (fst p2))
                     @ [stepErrorLine plan err]\<rparr>\<rparr>
             | None \<Rightarrow>
                (case snd p3 of Some err \<Rightarrow>
                 (fst p3)\<lparr>world := (world (fst p3))\<lparr>console := console (world (fst p3))
                     @ [stepErrorLine plan err]\<rparr>\<rparr>
                 | None \<Rightarrow> (fst p3)\<lparr>comp := (comp (fst p3))\<lparr>completedAutoTasks :=
                          insert (tp_id plan) (completedAutoTasks (comp (fst p3)))\<rparr>\<rparr>)))"
    unfolding s_def autoStep_unfold Let_def r0_def [symmetric] p1_def [symmetric]
      p2_def [symmetric] p3_def [symmetric] stepErrorLine_def ..
  show "enableResearch preferences \<and> snd x1 = Inl err \<longrightarrow>
           console (world s) = console w1 @ [stepErrorLine plan err]
           \<and> completedAutoTasks (comp s) = completedAutoTasks (comp r)"
    by (simp add: u e1 a1 c1)
  show "\<not> (enableResearch preferences \<and> isl (snd x1))
         \<and> enableExecution preferences \<and> snd x2 = Inl err \<longrightarrow>
           console (world s) = console w2 @ [stepErrorLine plan err]
           \<and> completedAutoTasks (comp s) = completedAutoTasks (comp r)"
    by (auto simp add: u e1 e2 a2 c2 no_raise)
  show "\<not> (enableResearch preferences \<and> isl (snd x1))
         \<and> \<not> (enableExecution preferences \<and> isl (snd x2))
         \<and> enableDeployment preferences \<and> snd x3 = Inl err \<longrightarrow>
           console (world s) = console w3 @ [stepErrorLine plan err]
           \<and> completedAutoTasks (comp s) = completedAutoTasks (comp r)"
    by (auto simp add: u e1 e2 e3 a3 c3 no_raise)
  show "\<not> (enableResearch preferences \<and> isl (snd x1))
         \<and> \<not> (enableExecution preferences \<and> isl (snd x2))
         \<and> \<not> (enableDeployment preferences \<and> isl (snd x3)) \<longrightarrow>
           console (world s) = console w3
           \<and> completedAutoTasks (comp s) = insert (tp_id plan) (completedAutoTasks (comp r))"
    by (auto simp add: u e1 e2 e3 a3 c3 no_raise)
qed

subsection \<open>The recorders when the creating write is rejected, and when they succeed\<close>

lemma conductResearch_rejected:
  assumes "\<not> write_ok e (tick w)"
  shows "snd (conductResearch e w p q d) = Inl (Error ''Failed to create research request'')"
    and "console (fst (conductResearch e w p q d)) = console w"
    and "tick (fst (conductResearch e w p q d)) = Suc (tick w)"
  using assms by (simp_all add: conductResearch_def insert_research_request_def)

lemma executeTask_rejected:
  assumes "\<not> write_ok e (tick w)"
  shows "snd (executeTask e w p ty ins) = Inl (Error ''Failed to create execution request'')"
    and "console (fst (executeTask e w p ty ins)) = console w"
    and "tick (fst (executeTask e w p ty ins)) = Suc (tick w)"
  using assms by (simp_all add: executeTask_def insert_execution_request_def)

lemma deployProject_rejected:
  assumes "\<not> write_ok e (tick w)"
  shows "snd (deployProject e w p ty c x) = Inl (Error ''Failed to create deployment request'')"
    and "console (fst (deployProject e w p ty c x)) = console w"
    and "tick (fst (deployProject e w p ty c x)) = Suc (tick w)"
  using assms by (simp_all add: deployProject_def insert_deployment_request_def)

lemma conductResearch_accepted:
  assumes "write_ok e (tick w)"
    and "agentResults (research_agent e (Suc (tick w)) (trim q) d) = Some rs"
    and "write_ok e (tick w + 2)"
  shows "console (fst (conductResearch e w p q d)) = console w"
    and "tick (fst (conductResearch e w p q d)) = tick w + 4"
  using assms
  by (auto simp add: research_defs Let_def req_id_new_request agentResults_def
        eval_nat_numeral
        split: option.splits research_agent_data.splits)

lemma executeTask_accepted:
  assumes "write_ok e (tick w)" and "write_ok e (tick w + 1)"
  shows "console (fst (executeTask e w p ty ins)) = console w"
    and "tick (fst (executeTask e w p ty ins)) = tick w + 3"
  using assms
  by (cases ty; simp add: execution_defs req_id_new_request req_input_new_request Let_def
        eval_nat_numeral)+

lemma deployProject_console:
  "console (fst (deployProject e w p ty c x)) = console w"
  by (cases ty; simp add: deployment_defs req_id_new_request req_input_new_request Let_def)

lemma executeTask_catch:
  assumes "write_ok e (tick w)" "\<not> write_ok e (tick w + 1)"
  shows "snd (executeTask e w p ty ins) = Inl (Error ''Failed to save execution results'')"
    and "execution_results (fst (executeTask e w p ty ins)) =
           execution_results w
             @ (if write_ok e (tick w + 2)
                then new_rows (Suc (next_id w)) (next_id w)
                       [executionErrorRow (Error ''Failed to save execution results'')]
                else [])"
  using assms
  by (cases ty; simp add: execution_defs req_id_new_request req_input_new_request Let_def
        eval_nat_numeral executionErrorRow_def)+

lemmas test_defs =
  testEnv_def emptyWorld_def agentAnswers_def agentDown_def sampleResults_def

lemma write_ok_testEnv: "write_ok (testEnv ok agent) t = ok t"
  by (simp add: testEnv_def)

lemma research_agent_testEnv: "research_agent (testEnv ok agent) t q d = agent t"
  by (simp add: testEnv_def)

lemma emptyWorld_fields:
  "tick emptyWorld = 0" "next_id emptyWorld = 0" "research_results emptyWorld = []"
  "deployment_results emptyWorld = []" "execution_results emptyWorld = []"
  "console emptyWorld = []"
  by (simp_all add: emptyWorld_def)

lemma wf_emptyWorld: "wf_world emptyWorld"
  by (simp add: wf_world_def emptyWorld_def)

subsection \<open>The claims about the recorders\<close>

text \<open>
  Claim C2, as amended.  \<^verbatim>\<open>conductResearch\<close> raises exactly when the write that creates
  its request is rejected.  \<^verbatim>\<open>executeTask\<close> raises when that write is rejected and also
  when, the request created, the write of its results is rejected: its \<^verbatim>\<open>catch\<close> block
  then tries to insert an error row and to update the status to \<^const>\<open>failed\<close>, ignores
  the outcome of both writes (the error row is stored only when its insert is accepted
  and the status is \<^const>\<open>failed\<close> only when its update is accepted) and throws the error
  again.  \<^verbatim>\<open>deployProject\<close> raises when the creating write is rejected and also when, the
  request created, both the write of the result and the write of the error row are
  rejected, throwing the original error again; when the write of the error row is
  accepted it returns that row and does not raise.  (The writes are the calls number
  \<open>tick w\<close>, \<open>tick w + 1\<close>, \<open>tick w + 2\<close> and \<open>tick w + 3\<close> made to the collaborator.)
\<close>

theorem recorders_raise_exactly_when:
  "isl (snd (conductResearch e w p q d)) = (\<not> write_ok e (tick w))
   \<and> isl (snd (executeTask e w p ty ins)) =
       (\<not> (write_ok e (tick w) \<and> write_ok e (tick w + 1)))
   \<and> isl (snd (deployProject e w p dty c x)) =
       (\<not> (write_ok e (tick w) \<and> (write_ok e (tick w + 1) \<or> write_ok e (tick w + 2))))
   \<and> (\<not> write_ok e (tick w) \<longrightarrow>
         snd (conductResearch e w p q d) = Inl (Error ''Failed to create research request'')
         \<and> snd (executeTask e w p ty ins) = Inl (Error ''Failed to create execution request'')
         \<and> snd (deployProject e w p dty c x)
             = Inl (Error ''Failed to create deployment request''))
   \<and> (wf_world w \<and> write_ok e (tick w) \<and> \<not> write_ok e (tick w + 1) \<longrightarrow>
         snd (executeTask e w p ty ins) = Inl (Error ''Failed to save execution results'')
         \<and> execution_results (fst (executeTask e w p ty ins)) =
             execution_results w
               @ (if write_ok e (tick w + 2)
                  then new_rows (Suc (next_id w)) (next_id w)
                         [executionErrorRow (Error ''Failed to save execution results'')]
                  else [])
         \<and> requestStatus (execution_requests (fst (executeTask e w p ty ins))) (next_id w)
             = Some (statusWritten (write_ok e (tick w + 3)) failed))
   \<and> (write_ok e (tick w) \<and> \<not> write_ok e (tick w + 1) \<longrightarrow>
         snd (deployProject e w p dty c x) =
           (if write_ok e (tick w + 2)
            then Inr \<lparr>row_id = Suc (next_id w), request_id = next_id w,
                      payload = \<lparr>deployment_url = None, claim_url = None, deploy_id = None,
                         dep_success = False,
                         dep_error_message = Some ''Failed to save deployment result'',
                         build_logs = None\<rparr>\<rparr>
            else Inl (Error ''Failed to save deployment result'')))"
proof (intro conjI impI)
  show "isl (snd (conductResearch e w p q d)) = (\<not> write_ok e (tick w))"
    by (rule conductResearch_raises)
  show "isl (snd (executeTask e w p ty ins)) =
       (\<not> (write_ok e (tick w) \<and> write_ok e (tick w + 1)))"
    by (simp add: executeTask_raises)
  show "isl (snd (deployProject e w p dty c x)) =
       (\<not> (write_ok e (tick w) \<and> (write_ok e (tick w + 1) \<or> write_ok e (tick w + 2))))"
    by (simp add: deployProject_raises)
next
  assume r: "\<not> write_ok e (tick w)"
  from r show "snd (conductResearch e w p q d)
      = Inl (Error ''Failed to create research request'')"
    by (rule conductResearch_rejected)
  from r show "snd (executeTask e w p ty ins)
      = Inl (Error ''Failed to create execution request'')"
    by (rule executeTask_rejected)
  from r show "snd (deployProject e w p dty c x)
      = Inl (Error ''Failed to create deployment request'')"
    by (rule deployProject_rejected)
next
  assume h: "wf_world w \<and> write_ok e (tick w) \<and> \<not> write_ok e (tick w + 1)"
  then have wf: "wf_world w" and ok: "write_ok e (tick w)"
    and no: "\<not> write_ok e (tick w + 1)"
    by simp_all
  from ok no show "snd (executeTask e w p ty ins)
      = Inl (Error ''Failed to save execution results'')"
    by (rule executeTask_catch)
  from ok no show "execution_results (fst (executeTask e w p ty ins)) =
      execution_results w
        @ (if write_ok e (tick w + 2)
           then new_rows (Suc (next_id w)) (next_id w)
                  [executionErrorRow (Error ''Failed to save execution results'')]
           else [])"
    by (rule executeTask_catch)
  from executeTask_status [OF wf ok, of p ty ins] no
  show "requestStatus (execution_requests (fst (executeTask e w p ty ins))) (next_id w)
      = Some (statusWritten (write_ok e (tick w + 3)) failed)"
    by (simp add: statusWritten_def)
next
  assume "write_ok e (tick w) \<and> \<not> write_ok e (tick w + 1)"
  then show "snd (deployProject e w p dty c x) =
      (if write_ok e (tick w + 2)
       then Inr \<lparr>row_id = Suc (next_id w), request_id = next_id w,
                 payload = \<lparr>deployment_url = None, claim_url = None, deploy_id = None,
                    dep_success = False,
                    dep_error_message = Some ''Failed to save deployment result'',
                    build_logs = None\<rparr>\<rparr>
       else Inl (Error ''Failed to save deployment result''))"
    by (simp add: deployProject_failure)
qed

text \<open>Witness for C2.  When the collaborator rejects call 1 only, \<^verbatim>\<open>executeTask\<close> raises
  with the error row stored and the request \<^const>\<open>failed\<close>, and \<^verbatim>\<open>deployProject\<close>
  returns its error row.  When it accepts call 0 only, \<^verbatim>\<open>executeTask\<close> raises with no
  error row stored and the request \<^const>\<open>in_progress\<close>, and \<^verbatim>\<open>deployProject\<close> raises.
  When it rejects call 0, \<^verbatim>\<open>conductResearch\<close> raises.\<close>

theorem recorders_raise_exactly_when_witness:
  "wf_world emptyWorld
   \<and> write_ok (testEnv (\<lambda>t. t \<noteq> 1) (\<lambda>t. agentAnswers)) (tick emptyWorld)
   \<and> \<not> write_ok (testEnv (\<lambda>t. t \<noteq> 1) (\<lambda>t. agentAnswers)) (tick emptyWorld + 1)
   \<and> snd (executeTask (testEnv (\<lambda>t. t \<noteq> 1) (\<lambda>t. agentAnswers)) emptyWorld ''plan-1''
         code_generation ''Create a component'')
       = Inl (Error ''Failed to save execution results'')
   \<and> execution_results (fst (executeTask (testEnv (\<lambda>t. t \<noteq> 1) (\<lambda>t. agentAnswers))
         emptyWorld ''plan-1'' code_generation ''Create a component''))
       = new_rows 1 0 [executionErrorRow (Error ''Failed to save execution results'')]
   \<and> requestStatus (execution_requests (fst (executeTask
         (testEnv (\<lambda>t. t \<noteq> 1) (\<lambda>t. agentAnswers)) emptyWorld ''plan-1'' code_generation
         ''Create a component''))) (next_id emptyWorld) = Some failed
   \<and> snd (deployProject (testEnv (\<lambda>t. t \<noteq> 1) (\<lambda>t. agentAnswers)) emptyWorld
         ''plan-1'' vercel_static [] None)
       = Inr \<lparr>row_id = 1, request_id = 0,
              payload = \<lparr>deployment_url = None, claim_url = None, deploy_id = None,
                 dep_success = False,
                 dep_error_message = Some ''Failed to save deployment result'',
                 build_logs = None\<rparr>\<rparr>
   \<and> write_ok (testEnv (\<lambda>t. t = 0) (\<lambda>t. agentAnswers)) (tick emptyWorld)
   \<and> \<not> write_ok (testEnv (\<lambda>t. t = 0) (\<lambda>t. agentAnswers)) (tick emptyWorld + 1)
   \<and> execution_results (fst (executeTask (testEnv (\<lambda>t. t = 0) (\<lambda>t. agentAnswers))
         emptyWorld ''plan-1'' code_generation ''Create a component'')) = []
   \<and> requestStatus (execution_requests (fst (executeTask
         (testEnv (\<lambda>t. t = 0) (\<lambda>t. agentAnswers)) emptyWorld ''plan-1'' code_generation
         ''Create a component''))) (next_id emptyWorld) = Some in_progress
   \<and> snd (deployProject (testEnv (\<lambda>t. t = 0) (\<lambda>t. agentAnswers)) emptyWorld
         ''plan-1'' vercel_static [] None)
       = Inl (Error ''Failed to save deployment result'')
   \<and> \<not> write_ok (testEnv (\<lambda>t. t \<noteq> 0) (\<lambda>t. agentAnswers)) (tick emptyWorld)
   \<and> snd (conductResearch (testEnv (\<lambda>t. t \<noteq> 0) (\<lambda>t. agentAnswers)) emptyWorld
         ''plan-1'' ''pottery'' detailed)
       = Inl (Error ''Failed to create research request'')"
proof -
  let ?e = "testEnv (\<lambda>t. t \<noteq> 1) (\<lambda>t. agentAnswers)"
  let ?f = "testEnv (\<lambda>t. t = 0) (\<lambda>t. agentAnswers)"
  let ?g = "testEnv (\<lambda>t. t \<noteq> 0) (\<lambda>t. agentAnswers)"
  have e: "wf_world emptyWorld \<and> write_ok ?e (tick emptyWorld)
      \<and> \<not> write_ok ?e (tick emptyWorld + 1)"
    and e': "write_ok ?e (tick emptyWorld) \<and> \<not> write_ok ?e (tick emptyWorld + 1)"
    by (simp_all add: wf_emptyWorld write_ok_testEnv emptyWorld_fields)
  have f: "wf_world emptyWorld \<and> write_ok ?f (tick emptyWorld)
      \<and> \<not> write_ok ?f (tick emptyWorld + 1)"
    and f': "write_ok ?f (tick emptyWorld) \<and> \<not> write_ok ?f (tick emptyWorld + 1)"
    by (simp_all add: wf_emptyWorld write_ok_testEnv emptyWorld_fields)
  have g: "\<not> write_ok ?g (tick emptyWorld)"
    by (simp add: write_ok_testEnv emptyWorld_fields)
  note te = recorders_raise_exactly_when [of ?e emptyWorld "''plan-1''" "''pottery''"
      detailed code_generation "''Create a component''" vercel_static "[]" None]
  note tf = recorders_raise_exactly_when [of ?f emptyWorld "''plan-1''" "''pottery''"
      detailed code_generation "''Create a component''" vercel_static "[]" None]
  note tg = recorders_raise_exactly_when [of ?g emptyWorld "''plan-1''" "''pottery''"
      detailed code_generation "''Create a component''" vercel_static "[]" None]
  from te e have e1: "snd (executeTask ?e emptyWorld ''plan-1'' code_generation
        ''Create a component'') = Inl (Error ''Failed to save execution results'')
      \<and> execution_results (fst (executeTask ?e emptyWorld ''plan-1'' code_generation
          ''Create a component'')) =
          execution_results emptyWorld
            @ (if write_ok ?e (tick emptyWorld + 2)
               then new_rows (Suc (next_id emptyWorld)) (next_id emptyWorld)
                      [executionErrorRow (Error ''Failed to save execution results'')]
               else [])
      \<and> requestStatus (execution_requests (fst (executeTask ?e emptyWorld ''plan-1''
          code_generation ''Create a component''))) (next_id emptyWorld)
          = Some (statusWritten (write_ok ?e (tick emptyWorld + 3)) failed)"
    by blast
  from te e' have e2: "snd (deployProject ?e emptyWorld ''plan-1'' vercel_static [] None) =
      (if write_ok ?e (tick emptyWorld + 2)
       then Inr \<lparr>row_id = Suc (next_id emptyWorld), request_id = next_id emptyWorld,
                 payload = \<lparr>deployment_url = None, claim_url = None, deploy_id = None,
                    dep_success = False,
                    dep_error_message = Some ''Failed to save deployment result'',
                    build_logs = None\<rparr>\<rparr>
       else Inl (Error ''Failed to save deployment result''))"
    by blast
  from tf f have f1: "execution_results (fst (executeTask ?f emptyWorld ''plan-1''
          code_generation ''Create a component'')) =
          execution_results emptyWorld
            @ (if write_ok ?f (tick emptyWorld + 2)
               then new_rows (Suc (next_id emptyWorld)) (next_id emptyWorld)
                      [executionErrorRow (Error ''Failed to save execution results'')]
               else [])
      \<and> requestStatus (execution_requests (fst (executeTask ?f emptyWorld ''plan-1''
          code_generation ''Create a component''))) (next_id emptyWorld)
          = Some (statusWritten (write_ok ?f (tick emptyWorld + 3)) failed)"
    by blast
  from tf f' have f2: "snd (deployProject ?f emptyWorld ''plan-1'' vercel_static [] None) =
      (if write_ok ?f (tick emptyWorld + 2)
       then Inr \<lparr>row_id = Suc (next_id emptyWorld), request_id = next_id emptyWorld,
                 payload = \<lparr>deployment_url = None, claim_url = None, deploy_id = None,
                    dep_success = False,
                    dep_error_message = Some ''Failed to save deployment result'',
                    build_logs = None\<rparr>\<rparr>
       else Inl (Error ''Failed to save deployment result''))"
    by blast
  from tg g have g1: "snd (conductResearch ?g emptyWorld ''plan-1'' ''pottery'' detailed)
      = Inl (Error ''Failed to create research request'')"
    by blast
  from e f g e1 e2 f1 f2 g1 show ?thesis
    by (simp add: write_ok_testEnv emptyWorld_fields statusWritten_def)
qed

text \<open>
  Claim C2 as stated fails: with the request row created (call 0 accepted) and the write
  of the results rejected (call 1), \<^verbatim>\<open>executeTask\<close> raises ``Failed to save execution
  results'' to its caller.
\<close>

theorem executeTask_raises_after_creation:
  "write_ok (testEnv (\<lambda>t. t \<noteq> 1) (\<lambda>t. agentAnswers)) (tick emptyWorld)
   \<and> snd (executeTask (testEnv (\<lambda>t. t \<noteq> 1) (\<lambda>t. agentAnswers)) emptyWorld ''plan-1''
          code_generation ''Create a component'')
       = Inl (Error ''Failed to save execution results'')"
  by (simp add: test_defs execution_defs new_request_def new_rows_def generateCode_def
       executionResult_def Let_def)

text \<open>
  Claim C5, as amended.  Let a recorder create its request row (identifier \<open>next_id w\<close>,
  status \<^const>\<open>in_progress\<close>).  When it has resolved, it has issued one status update,
  to \<^const>\<open>completed\<close> on its success path and to \<^const>\<open>failed\<close> on its \<^verbatim>\<open>catch\<close> path;
  it ignores the outcome of that update.  So the status of the request is
  \<^const>\<open>completed\<close> or \<^const>\<open>failed\<close> when the collaborator accepts the update, and is
  still \<^const>\<open>in_progress\<close> when the collaborator rejects it.
\<close>

theorem request_status_after_resolution:
  assumes "wf_world w" and "write_ok e (tick w)"
  shows
    "requestStatus (research_requests (fst (conductResearch e w p q d))) (next_id w) =
       Some (case agentResults (research_agent e (Suc (tick w)) (trim q) d) of
               Some rs \<Rightarrow>
                 (if write_ok e (tick w + 2)
                  then statusWritten (write_ok e (tick w + 3)) completed
                  else statusWritten (write_ok e (tick w + 3)) failed)
             | None \<Rightarrow> statusWritten (write_ok e (tick w + 2)) failed)
     \<and> requestStatus (execution_requests (fst (executeTask e w p ty ins))) (next_id w) =
         Some (if write_ok e (tick w + 1)
               then statusWritten (write_ok e (tick w + 2)) completed
               else statusWritten (write_ok e (tick w + 3)) failed)
     \<and> requestStatus (deployment_requests (fst (deployProject e w p dty c x))) (next_id w) =
         Some (if write_ok e (tick w + 1)
               then statusWritten (write_ok e (tick w + 2)) completed
               else statusWritten (write_ok e (tick w + 3)) failed)"
  using assms
  by (simp add: conductResearch_status executeTask_status deployProject_status
        statusWritten_def split: option.splits)

text \<open>Witness for C5: the collaborator rejects call 1 only.  The research request ends
  \<^const>\<open>completed\<close>; the execution and deployment requests, whose results are not
  stored, end \<^const>\<open>failed\<close>.\<close>

theorem request_status_after_resolution_witness:
  "wf_world emptyWorld
   \<and> write_ok (testEnv (\<lambda>t. t \<noteq> 1) (\<lambda>t. agentAnswers)) (tick emptyWorld)
   \<and> requestStatus (research_requests (fst (conductResearch
         (testEnv (\<lambda>t. t \<noteq> 1) (\<lambda>t. agentAnswers)) emptyWorld ''plan-1'' ''pottery''
         detailed))) (next_id emptyWorld) = Some completed
   \<and> requestStatus (execution_requests (fst (executeTask
         (testEnv (\<lambda>t. t \<noteq> 1) (\<lambda>t. agentAnswers)) emptyWorld ''plan-1'' code_generation
         ''Create a component''))) (next_id emptyWorld) = Some failed
   \<and> requestStatus (deployment_requests (fst (deployProject
         (testEnv (\<lambda>t. t \<noteq> 1) (\<lambda>t. agentAnswers)) emptyWorld ''plan-1'' netlify_static
         [] None))) (next_id emptyWorld) = Some failed"
proof -
  let ?e = "testEnv (\<lambda>t. t \<noteq> 1) (\<lambda>t. agentAnswers)"
  have ok: "write_ok ?e (tick emptyWorld)"
    by (simp add: write_ok_testEnv emptyWorld_fields)
  from request_status_after_resolution [OF wf_emptyWorld ok, of "''plan-1''" "''pottery''"
      detailed code_generation "''Create a component''" netlify_static "[]" None]
  show ?thesis
    by (simp add: wf_emptyWorld write_ok_testEnv research_agent_testEnv emptyWorld_fields
          agentAnswers_def agentResults_def statusWritten_def)
qed

text \<open>
  Claim C5 as stated fails: \<^verbatim>\<open>executeTask\<close> creates its request (call 0) and stores its
  result (call 1), the collaborator rejects the status update (call 2), and the recorder
  returns the stored result with the request left at \<^const>\<open>in_progress\<close>.
\<close>

theorem executeTask_leaves_in_progress:
  "write_ok (testEnv (\<lambda>t. t < 2) (\<lambda>t. agentDown)) (tick emptyWorld)
   \<and> snd (executeTask (testEnv (\<lambda>t. t < 2) (\<lambda>t. agentDown)) emptyWorld ''plan-1''
          code_generation ''Create a component'')
       = Inr [\<lparr>row_id = 1, request_id = 0,
               payload = \<lparr>output_type = code_out, exe_content = [], file_path = None,
                          exe_success = True, exe_error_message = None\<rparr>\<rparr>]
   \<and> requestStatus (execution_requests (fst (executeTask
          (testEnv (\<lambda>t. t < 2) (\<lambda>t. agentDown)) emptyWorld ''plan-1''
          code_generation ''Create a component''))) (next_id emptyWorld) = Some in_progress"
  by (simp add: test_defs execution_defs new_request_def new_rows_def generateCode_def
       executionResult_def requestStatus_def set_status_def Let_def)

text \<open>
  Claim C6, as amended.  Let \<^verbatim>\<open>conductResearch\<close> create its request row, and let the edge
  function fail to answer with results or the write of the results be rejected.  Then
  the recorder does not raise.  It issues a status update to \<^const>\<open>failed\<close> (call \<open>k\<close>
  below), which takes effect when the collaborator accepts it and leaves the request
  \<^const>\<open>in_progress\<close> otherwise, and it writes the fallback results generated from the
  query (call \<open>k + 1\<close>): it returns the stored rows, whose payloads are the fallback
  results, when that write is accepted, and the fallback results held in memory when it
  is rejected.
\<close>

theorem conductResearch_failure_path:
  assumes "wf_world w" and "write_ok e (tick w)"
    and "agentResults (research_agent e (Suc (tick w)) (trim q) d) = None
         \<or> \<not> write_ok e (tick w + 2)"
  shows
    "(let k = (if agentResults (research_agent e (Suc (tick w)) (trim q) d) = None
               then tick w + 2 else tick w + 3)
      in snd (conductResearch e w p q d) =
           Inr (if write_ok e (k + 1)
                then Saved (new_rows (Suc (next_id w)) (next_id w)
                              (generateFallbackResults q))
                else Unsaved (generateFallbackResults q))
         \<and> requestStatus (research_requests (fst (conductResearch e w p q d))) (next_id w)
             = Some (statusWritten (write_ok e k) failed))
     \<and> map payload (new_rows (Suc (next_id w)) (next_id w) (generateFallbackResults q))
         = generateFallbackResults q"
proof -
  from assms(2,3) have r: "snd (conductResearch e w p q d) =
     Inr (if write_ok e
               (if agentResults (research_agent e (Suc (tick w)) (trim q) d) = None
                then tick w + 3 else tick w + 4)
          then Saved (new_rows (Suc (next_id w)) (next_id w) (generateFallbackResults q))
          else Unsaved (generateFallbackResults q))"
    by (rule conductResearch_fallback)
  note s = conductResearch_status [OF assms(1,2), of p q d]
  show ?thesis
  proof (cases "agentResults (research_agent e (Suc (tick w)) (trim q) d)")
    case None
    with r s show ?thesis
      by (simp add: Let_def statusWritten_def new_rows_payload eval_nat_numeral)
  next
    case (Some rs)
    with assms(3) have "\<not> write_ok e (tick w + 2)" by simp
    with Some r s show ?thesis
      by (simp add: Let_def statusWritten_def new_rows_payload eval_nat_numeral)
  qed
qed

text \<open>Witness for C6: the edge function is down and every write is accepted.  The request
  ends \<^const>\<open>failed\<close> and the three stored generic fallback rows are returned.\<close>

theorem conductResearch_failure_path_witness:
  "wf_world emptyWorld
   \<and> write_ok (testEnv (\<lambda>t. True) (\<lambda>t. agentDown)) (tick emptyWorld)
   \<and> agentResults (research_agent (testEnv (\<lambda>t. True) (\<lambda>t. agentDown))
        (Suc (tick emptyWorld)) (trim ''pottery'') detailed) = None
   \<and> snd (conductResearch (testEnv (\<lambda>t. True) (\<lambda>t. agentDown)) emptyWorld ''plan-1''
         ''pottery'' detailed) = Inr (Saved (new_rows 1 0 (genericResults ''pottery'')))
   \<and> requestStatus (research_requests (fst (conductResearch
         (testEnv (\<lambda>t. True) (\<lambda>t. agentDown)) emptyWorld ''plan-1'' ''pottery''
         detailed))) (next_id emptyWorld) = Some failed"
proof -
  let ?e = "testEnv (\<lambda>t. True) (\<lambda>t. agentDown)"
  have ok: "write_ok ?e (tick emptyWorld)"
    by (simp add: write_ok_testEnv)
  have a: "agentResults (research_agent ?e (Suc (tick emptyWorld)) (trim ''pottery'')
              detailed) = None"
    by (simp add: research_agent_testEnv agentDown_def agentResults_def)
  have g: "generateFallbackResults ''pottery'' = genericResults ''pottery''"
    by (simp add: generateFallbackResults_def lower_eval)
  from a have h: "agentResults (research_agent ?e (Suc (tick emptyWorld)) (trim ''pottery'')
              detailed) = None
           \<or> \<not> write_ok ?e (tick emptyWorld + 2)"
    by simp
  from conductResearch_failure_path [OF wf_emptyWorld ok h, of "''plan-1''"] a
  show ?thesis
    by (simp add: wf_emptyWorld write_ok_testEnv emptyWorld_fields g Let_def
          statusWritten_def)
qed

text \<open>
  Claim C6 as stated fails: the request is created (call 0), the edge function is down
  and every later write is rejected.  The fallback results are returned, and the
  request is left at \<^const>\<open>in_progress\<close>: its status is not \<^const>\<open>failed\<close>.
\<close>

theorem conductResearch_failed_update_rejected:
  "write_ok (testEnv (\<lambda>t. t = 0) (\<lambda>t. agentDown)) (tick emptyWorld)
   \<and> snd (conductResearch (testEnv (\<lambda>t. t = 0) (\<lambda>t. agentDown)) emptyWorld ''plan-1''
          ''pottery'' detailed)
       = Inr (Unsaved (genericResults ''pottery''))
   \<and> requestStatus (research_requests (fst (conductResearch
          (testEnv (\<lambda>t. t = 0) (\<lambda>t. agentDown)) emptyWorld ''plan-1''
          ''pottery'' detailed))) (next_id emptyWorld) = Some in_progress
   \<and> requestStatus (research_requests (fst (conductResearch
          (testEnv (\<lambda>t. t = 0) (\<lambda>t. agentDown)) emptyWorld ''plan-1''
          ''pottery'' detailed))) (next_id emptyWorld) \<noteq> Some failed"
  by (simp add: test_defs research_defs new_request_def new_rows_def
       requestStatus_def set_status_def Let_def generateFallbackResults_def lower_eval)

text \<open>
  Claim C9, as amended.  A row made from a result of the edge function has a relevance
  score between 1 and 10: a missing score becomes 5, a score of 0, which \<^verbatim>\<open>|| 5\<close> reads
  as missing, becomes 5 as well, and any other score \<open>s\<close> becomes \<open>min 10 (max 1 s)\<close>.  On the success
  path of \<^verbatim>\<open>conductResearch\<close> (request created, results received, write of the results
  accepted) the rows returned are the rows added to \<^verbatim>\<open>research_results\<close>, and each has
  a score between 1 and 10.
\<close>

theorem relevance_score_range:
  "1 \<le> relevance_score (resultToInsert raw) \<and> relevance_score (resultToInsert raw) \<le> 10
   \<and> (raw_relevance_score raw = None \<longrightarrow> relevance_score (resultToInsert raw) = 5)
   \<and> (raw_relevance_score raw = Some 0 \<longrightarrow> relevance_score (resultToInsert raw) = 5)
   \<and> (\<forall>s. raw_relevance_score raw = Some s \<and> s \<noteq> 0
         \<longrightarrow> relevance_score (resultToInsert raw) = min 10 (max 1 s))
   \<and> (write_ok e (tick w)
        \<and> agentResults (research_agent e (Suc (tick w)) (trim q) d) = Some rs
        \<and> write_ok e (tick w + 2)
      \<longrightarrow> snd (conductResearch e w p q d) =
            Inr (Saved (new_rows (Suc (next_id w)) (next_id w) (map resultToInsert rs)))
          \<and> research_results (fst (conductResearch e w p q d)) =
              research_results w
                @ new_rows (Suc (next_id w)) (next_id w) (map resultToInsert rs)
          \<and> list_all (\<lambda>row. 1 \<le> relevance_score (payload row)
                             \<and> relevance_score (payload row) \<le> 10)
              (new_rows (Suc (next_id w)) (next_id w) (map resultToInsert rs)))"
proof (intro conjI allI impI)
  show "1 \<le> relevance_score (resultToInsert raw)"
    and "relevance_score (resultToInsert raw) \<le> 10"
    by (simp_all add: resultToInsert_def clampScore_range)
next
  assume "raw_relevance_score raw = None"
  then show "relevance_score (resultToInsert raw) = 5"
    by (simp add: resultToInsert_def clampScore_def)
next
  assume "raw_relevance_score raw = Some 0"
  then show "relevance_score (resultToInsert raw) = 5"
    by (simp add: resultToInsert_def clampScore_def)
next
  fix s assume "raw_relevance_score raw = Some s \<and> s \<noteq> 0"
  then show "relevance_score (resultToInsert raw) = min 10 (max 1 s)"
    by (simp add: resultToInsert_def clampScore_def)
next
  assume h: "write_ok e (tick w)
        \<and> agentResults (research_agent e (Suc (tick w)) (trim q) d) = Some rs
        \<and> write_ok e (tick w + 2)"
  then show "snd (conductResearch e w p q d) =
      Inr (Saved (new_rows (Suc (next_id w)) (next_id w) (map resultToInsert rs)))"
    by (simp add: conductResearch_success)
  from h show "research_results (fst (conductResearch e w p q d)) =
      research_results w @ new_rows (Suc (next_id w)) (next_id w) (map resultToInsert rs)"
    by (simp add: conductResearch_success)
  have "list_all (\<lambda>x. 1 \<le> relevance_score x \<and> relevance_score x \<le> 10)
          (map resultToInsert rs)"
    by (simp add: list_all_iff resultToInsert_def clampScore_range)
  then show "list_all (\<lambda>row. 1 \<le> relevance_score (payload row)
                             \<and> relevance_score (payload row) \<le> 10)
      (new_rows (Suc (next_id w)) (next_id w) (map resultToInsert rs))"
    using list_all_new_rows [of "\<lambda>x. 1 \<le> relevance_score x \<and> relevance_score x \<le> 10"
        "Suc (next_id w)" "next_id w" "map resultToInsert rs"]
    by simp
qed

text \<open>Witness for C9: the edge function sends a result with the score 12 and one without
  a score; the rows stored have the scores 10 and 5.  A result with the score 0 gives a
  row with the score 5.\<close>

theorem relevance_score_range_witness:
  "write_ok (testEnv (\<lambda>t. True) (\<lambda>t. agentAnswers)) (tick emptyWorld)
   \<and> agentResults (research_agent (testEnv (\<lambda>t. True) (\<lambda>t. agentAnswers))
        (Suc (tick emptyWorld)) (trim ''pottery'') detailed) = Some sampleResults
   \<and> write_ok (testEnv (\<lambda>t. True) (\<lambda>t. agentAnswers)) (tick emptyWorld + 2)
   \<and> raw_relevance_score (sampleResults ! 0) = Some 12
   \<and> raw_relevance_score (sampleResults ! 1) = None
   \<and> map relevance_score (map payload
       (research_results (fst (conductResearch (testEnv (\<lambda>t. True) (\<lambda>t. agentAnswers))
          emptyWorld ''plan-1'' ''pottery'' detailed)))) = [10, 5]
   \<and> raw_relevance_score zeroScoreResult = Some 0
   \<and> relevance_score (resultToInsert zeroScoreResult) = 5"
proof -
  let ?e = "testEnv (\<lambda>t. True) (\<lambda>t. agentAnswers)"
  have z: "raw_relevance_score zeroScoreResult = Some 0"
    by (simp add: zeroScoreResult_def)
  note thmz = relevance_score_range [of zeroScoreResult]
  from thmz z have cz: "relevance_score (resultToInsert zeroScoreResult) = 5"
    by blast
  have s0: "raw_relevance_score (sampleResults ! 0) = Some 12"
    and s1: "raw_relevance_score (sampleResults ! Suc 0) = None"
    and two: "sampleResults = [sampleResults ! 0, sampleResults ! Suc 0]"
    by (simp_all add: sampleResults_def)
  have h: "write_ok ?e (tick emptyWorld)
        \<and> agentResults (research_agent ?e (Suc (tick emptyWorld)) (trim ''pottery'')
            detailed) = Some sampleResults
        \<and> write_ok ?e (tick emptyWorld + 2)"
    by (simp add: write_ok_testEnv research_agent_testEnv agentAnswers_def agentResults_def)
  note thm0 = relevance_score_range [of "sampleResults ! 0" ?e emptyWorld "''pottery''"
      detailed sampleResults "''plan-1''"]
  note thm1 = relevance_score_range [of "sampleResults ! Suc 0"]
  from thm0 s0 have c0: "relevance_score (resultToInsert (sampleResults ! 0)) = 10"
    by simp
  from thm1 s1 have c1: "relevance_score (resultToInsert (sampleResults ! Suc 0)) = 5"
    by blast
  from thm0 h have "research_results (fst (conductResearch ?e emptyWorld ''plan-1''
        ''pottery'' detailed)) =
      research_results emptyWorld
        @ new_rows (Suc (next_id emptyWorld)) (next_id emptyWorld)
            (map resultToInsert sampleResults)"
    by blast
  then have "map payload (research_results (fst (conductResearch ?e emptyWorld ''plan-1''
        ''pottery'' detailed))) = map resultToInsert sampleResults"
    by (simp only: emptyWorld_fields append_Nil new_rows_payload)
  then have "map relevance_score (map payload (research_results (fst (conductResearch ?e
        emptyWorld ''plan-1'' ''pottery'' detailed))))
      = map relevance_score (map resultToInsert sampleResults)"
    by (rule arg_cong)
  also have "\<dots> = [10, 5]"
    by (subst two) (simp add: c0 c1)
  finally have "map relevance_score (map payload (research_results (fst (conductResearch ?e
        emptyWorld ''plan-1'' ''pottery'' detailed)))) = [10, 5]" .
  with h s0 s1 z cz show ?thesis by simp
qed

text \<open>
  Claim C9 as stated fails in its account of the clamping: a score of 0 is not clamped
  to \<open>min 10 (max 1 0) = 1\<close>; the row stored has the score 5.
\<close>

theorem relevance_score_zero_becomes_five:
  "raw_relevance_score zeroScoreResult = Some 0
   \<and> relevance_score (resultToInsert zeroScoreResult) = 5
   \<and> relevance_score (resultToInsert zeroScoreResult) \<noteq> min 10 (max 1 0)
   \<and> snd (conductResearch (testEnv (\<lambda>t. True) (\<lambda>t. agentZero)) emptyWorld ''plan-1''
         ''pottery'' detailed)
       = Inr (Saved [\<lparr>row_id = 1, request_id = 0,
                      payload = \<lparr>source_url = None, res_title = ''Weak match'',
                         res_content = ''Text'', summary = None,
                         relevance_score = 5\<rparr>\<rparr>])
   \<and> map relevance_score (map payload (research_results (fst (conductResearch
         (testEnv (\<lambda>t. True) (\<lambda>t. agentZero)) emptyWorld ''plan-1'' ''pottery''
         detailed)))) = [5]"
  by (simp add: test_defs agentZero_def zeroScoreResult_def research_defs new_request_def
        new_rows_def resultToInsert_def clampScore_def orNull_def Let_def)

text \<open>
  Claim C10.  Let \<^verbatim>\<open>deployProject\<close> create its request row (call \<open>tick w\<close> accepted) and
  let the deployment then fail, that is, let the write of its result be rejected (call
  \<open>tick w + 1\<close>).  When the insert of the error row (call \<open>tick w + 2\<close>) is accepted, the
  recorder returns that stored row, with \<^verbatim>\<open>success = false\<close> and the message of the
  error, and does not raise; when it is rejected too, the recorder raises the original
  error.
\<close>

theorem deployProject_error_row:
  assumes "write_ok e (tick w)" and "\<not> write_ok e (tick w + 1)"
  shows
    "snd (deployProject e w p ty c x) =
       (if write_ok e (tick w + 2)
        then Inr \<lparr>row_id = Suc (next_id w), request_id = next_id w,
                  payload = \<lparr>deployment_url = None, claim_url = None, deploy_id = None,
                     dep_success = False,
                     dep_error_message = Some ''Failed to save deployment result'',
                     build_logs = None\<rparr>\<rparr>
        else Inl (Error ''Failed to save deployment result''))
     \<and> (write_ok e (tick w + 2) \<longrightarrow>
          deployment_results (fst (deployProject e w p ty c x)) = deployment_results w @
            [\<lparr>row_id = Suc (next_id w), request_id = next_id w,
               payload = \<lparr>deployment_url = None, claim_url = None, deploy_id = None,
                  dep_success = False,
                  dep_error_message = Some ''Failed to save deployment result'',
                  build_logs = None\<rparr>\<rparr>])"
  using deployProject_failure [OF assms] by simp

text \<open>Witness for C10: the collaborator rejects call 1 only, and the stored error row is
  returned; when it accepts call 0 only, the original error is raised.\<close>

theorem deployProject_error_row_witness:
  "write_ok (testEnv (\<lambda>t. t \<noteq> 1) (\<lambda>t. agentAnswers)) (tick emptyWorld)
   \<and> \<not> write_ok (testEnv (\<lambda>t. t \<noteq> 1) (\<lambda>t. agentAnswers)) (tick emptyWorld + 1)
   \<and> write_ok (testEnv (\<lambda>t. t \<noteq> 1) (\<lambda>t. agentAnswers)) (tick emptyWorld + 2)
   \<and> snd (deployProject (testEnv (\<lambda>t. t \<noteq> 1) (\<lambda>t. agentAnswers)) emptyWorld ''plan-1''
         netlify_static [] None) =
       Inr \<lparr>row_id = 1, request_id = 0,
            payload = \<lparr>deployment_url = None, claim_url = None, deploy_id = None,
               dep_success = False,
               dep_error_message = Some ''Failed to save deployment result'',
               build_logs = None\<rparr>\<rparr>
   \<and> deployment_results (fst (deployProject (testEnv (\<lambda>t. t \<noteq> 1) (\<lambda>t. agentAnswers))
         emptyWorld ''plan-1'' netlify_static [] None)) =
       [\<lparr>row_id = 1, request_id = 0,
            payload = \<lparr>deployment_url = None, claim_url = None, deploy_id = None,
               dep_success = False,
               dep_error_message = Some ''Failed to save deployment result'',
               build_logs = None\<rparr>\<rparr>]
   \<and> snd (deployProject (testEnv (\<lambda>t. t = 0) (\<lambda>t. agentAnswers)) emptyWorld ''plan-1''
         netlify_static [] None) = Inl (Error ''Failed to save deployment result'')"
proof -
  let ?e = "testEnv (\<lambda>t. t \<noteq> 1) (\<lambda>t. agentAnswers)"
  let ?f = "testEnv (\<lambda>t. t = 0) (\<lambda>t. agentAnswers)"
  have e0: "write_ok ?e (tick emptyWorld)" and e1: "\<not> write_ok ?e (tick emptyWorld + 1)"
    by (simp_all add: write_ok_testEnv emptyWorld_fields)
  have f0: "write_ok ?f (tick emptyWorld)" and f1: "\<not> write_ok ?f (tick emptyWorld + 1)"
    by (simp_all add: write_ok_testEnv emptyWorld_fields)
  from deployProject_error_row [OF e0 e1, of "''plan-1''" netlify_static "[]" None]
    deployProject_error_row [OF f0 f1, of "''plan-1''" netlify_static "[]" None]
  show ?thesis
    by (simp add: write_ok_testEnv emptyWorld_fields)
qed

subsection \<open>The claims about the workflow runner\<close>

text \<open>
  Claim C7.  Whatever the collaborator does and however many recorder invocations raise,
  \<^verbatim>\<open>handleAutoStartAll\<close> returns, and leaves the component idle: \<^verbatim>\<open>isAutoRunning\<close> is
  false, \<^verbatim>\<open>currentAutoTask\<close> and \<^verbatim>\<open>currentAutoPhase\<close> are null.  The rest of the
  component shows no failure: every plan is started and expanded, the preferences are
  stored, and the completed plans are those completed before and some plans of the run.

  A failure of a step is reported on the console and nowhere else.  In a step
  (\<^const>\<open>autoStep\<close>, from any state \<open>r'\<close>) the first enabled recorder that raises ends the
  step: the error it raised is appended to the console, after what the recorders have
  logged themselves, as the line \<^const>\<open>stepErrorLine\<close>, and the plan is not marked
  completed.  When no enabled recorder raises, the step appends nothing and marks the
  plan completed.
\<close>

theorem handleAutoStartAll_reaches_idle:
  "isAutoRunning (comp (handleAutoStartAll e captured plans preferences r)) = False
   \<and> currentAutoTask (comp (handleAutoStartAll e captured plans preferences r)) = None
   \<and> currentAutoPhase (comp (handleAutoStartAll e captured plans preferences r)) = None
   \<and> startedTasks (comp (handleAutoStartAll e captured plans preferences r))
       = set (map tp_id plans)
   \<and> expandedPlans (comp (handleAutoStartAll e captured plans preferences r))
       = set (map tp_id plans)
   \<and> autoPreferences (comp (handleAutoStartAll e captured plans preferences r))
       = Some preferences
   \<and> completedAutoTasks (comp r)
       \<subseteq> completedAutoTasks (comp (handleAutoStartAll e captured plans preferences r))
   \<and> completedAutoTasks (comp (handleAutoStartAll e captured plans preferences r))
       \<subseteq> completedAutoTasks (comp r) \<union> set (map tp_id plans)
   \<and> (let q = generateAutoResearchQuery plan (researchDepth preferences);
           ins = generateAutoExecutionInstructions plan (executionMode preferences);
           cfg = generateAutoDeploymentConfig plan (deploymentProvider preferences);
           x1 = conductResearch e (world r') (tp_id plan) q detailed;
           w1 = (if enableResearch preferences then fst x1 else world r');
           x2 = executeTask e w1 (tp_id plan) code_generation ins;
           w2 = (if enableExecution preferences then fst x2 else w1);
           x3 = deployProject e w2 (tp_id plan) (deploymentProvider preferences) cfg None;
           w3 = (if enableDeployment preferences then fst x3 else w2);
           s = autoStep e preferences plan r'
       in (enableResearch preferences \<and> snd x1 = Inl err \<longrightarrow>
             console (world s) = console w1 @ [stepErrorLine plan err]
             \<and> completedAutoTasks (comp s) = completedAutoTasks (comp r'))
          \<and> (\<not> (enableResearch preferences \<and> isl (snd x1))
              \<and> enableExecution preferences \<and> snd x2 = Inl err \<longrightarrow>
             console (world s) = console w2 @ [stepErrorLine plan err]
             \<and> completedAutoTasks (comp s) = completedAutoTasks (comp r'))
          \<and> (\<not> (enableResearch preferences \<and> isl (snd x1))
              \<and> \<not> (enableExecution preferences \<and> isl (snd x2))
              \<and> enableDeployment preferences \<and> snd x3 = Inl err \<longrightarrow>
             console (world s) = console w3 @ [stepErrorLine plan err]
             \<and> completedAutoTasks (comp s) = completedAutoTasks (comp r'))
          \<and> (\<not> (enableResearch preferences \<and> isl (snd x1))
              \<and> \<not> (enableExecution preferences \<and> isl (snd x2))
              \<and> \<not> (enableDeployment preferences \<and> isl (snd x3)) \<longrightarrow>
             console (world s) = console w3
             \<and> completedAutoTasks (comp s)
                 = insert (tp_id plan) (completedAutoTasks (comp r'))))"
proof -
  define r1 where "r1 = r\<lparr>comp := (comp r)\<lparr>autoPreferences := Some preferences,
                                   isAutoRunning := True,
                                   startedTasks := set (map tp_id plans),
                                   expandedPlans := set (map tp_id plans)\<rparr>\<rparr>"
  have u: "handleAutoStartAll e captured plans preferences r =
      (autoLoop e captured preferences plans r1)
        \<lparr>comp := (comp (autoLoop e captured preferences plans r1))
           \<lparr>isAutoRunning := False, currentAutoTask := None, currentAutoPhase := None\<rparr>\<rparr>"
    by (simp add: handleAutoStartAll_def Let_def r1_def)
  note k = autoLoop_keeps [of e captured preferences plans r1]
  have c: "completedAutoTasks (comp r1) = completedAutoTasks (comp r)"
    and s: "startedTasks (comp r1) = set (map tp_id plans)"
    and x: "expandedPlans (comp r1) = set (map tp_id plans)"
    and a: "autoPreferences (comp r1) = Some preferences"
    by (simp_all add: r1_def)
  from k c s x a have idle:
    "isAutoRunning (comp (handleAutoStartAll e captured plans preferences r)) = False
     \<and> currentAutoTask (comp (handleAutoStartAll e captured plans preferences r)) = None
     \<and> currentAutoPhase (comp (handleAutoStartAll e captured plans preferences r)) = None
     \<and> startedTasks (comp (handleAutoStartAll e captured plans preferences r))
         = set (map tp_id plans)
     \<and> expandedPlans (comp (handleAutoStartAll e captured plans preferences r))
         = set (map tp_id plans)
     \<and> autoPreferences (comp (handleAutoStartAll e captured plans preferences r))
         = Some preferences
     \<and> completedAutoTasks (comp r)
         \<subseteq> completedAutoTasks (comp (handleAutoStartAll e captured plans preferences r))
     \<and> completedAutoTasks (comp (handleAutoStartAll e captured plans preferences r))
         \<subseteq> completedAutoTasks (comp r) \<union> set (map tp_id plans)"
    unfolding u by simp
  note rep = autoStep_report [where e = e and preferences = preferences and plan = plan
      and r = r']
  from idle rep show ?thesis
    unfolding Let_def by blast
qed

text \<open>
  Witness for C7, on one step for the sample plan with the three phases enabled, from the
  idle page.  When the collaborator rejects its first call, \<^verbatim>\<open>conductResearch\<close> raises
  and the step logs that error; when it rejects call 4 only, the research succeeds in
  calls 0 to 3, \<^verbatim>\<open>executeTask\<close> raises and the step logs that error; when it rejects call
  7 only, \<^verbatim>\<open>deployProject\<close> raises and the step logs that error.  In the three cases the
  plan is not marked completed.  When every call is accepted, nothing is logged and the
  plan is marked completed.
\<close>

theorem handleAutoStartAll_reaches_idle_witness:
  "enableResearch allPhases \<and> enableExecution allPhases \<and> enableDeployment allPhases
   \<and> snd (conductResearch (testEnv (\<lambda>t. t \<noteq> 0) (\<lambda>t. agentAnswers)) (world initialRun)
           (tp_id samplePlan)
           (generateAutoResearchQuery samplePlan (researchDepth allPhases)) detailed)
       = Inl (Error ''Failed to create research request'')
   \<and> console (world (autoStep (testEnv (\<lambda>t. t \<noteq> 0) (\<lambda>t. agentAnswers)) allPhases
         samplePlan initialRun))
       = [stepErrorLine samplePlan (Error ''Failed to create research request'')]
   \<and> completedAutoTasks (comp (autoStep (testEnv (\<lambda>t. t \<noteq> 0) (\<lambda>t. agentAnswers))
         allPhases samplePlan initialRun)) = {}
   \<and> \<not> isl (snd (conductResearch (testEnv (\<lambda>t. t \<noteq> 4) (\<lambda>t. agentAnswers))
           (world initialRun) (tp_id samplePlan)
           (generateAutoResearchQuery samplePlan (researchDepth allPhases)) detailed))
   \<and> snd (executeTask (testEnv (\<lambda>t. t \<noteq> 4) (\<lambda>t. agentAnswers))
           (fst (conductResearch (testEnv (\<lambda>t. t \<noteq> 4) (\<lambda>t. agentAnswers))
              (world initialRun) (tp_id samplePlan)
              (generateAutoResearchQuery samplePlan (researchDepth allPhases)) detailed))
           (tp_id samplePlan) code_generation
           (generateAutoExecutionInstructions samplePlan (executionMode allPhases)))
       = Inl (Error ''Failed to create execution request'')
   \<and> console (world (autoStep (testEnv (\<lambda>t. t \<noteq> 4) (\<lambda>t. agentAnswers)) allPhases
         samplePlan initialRun))
       = [stepErrorLine samplePlan (Error ''Failed to create execution request'')]
   \<and> completedAutoTasks (comp (autoStep (testEnv (\<lambda>t. t \<noteq> 4) (\<lambda>t. agentAnswers))
         allPhases samplePlan initialRun)) = {}
   \<and> console (world (autoStep (testEnv (\<lambda>t. t \<noteq> 7) (\<lambda>t. agentAnswers)) allPhases
         samplePlan initialRun))
       = [stepErrorLine samplePlan (Error ''Failed to create deployment request'')]
   \<and> completedAutoTasks (comp (autoStep (testEnv (\<lambda>t. t \<noteq> 7) (\<lambda>t. agentAnswers))
         allPhases samplePlan initialRun)) = {}
   \<and> console (world (autoStep (testEnv (\<lambda>t. True) (\<lambda>t. agentAnswers)) allPhases
         samplePlan initialRun)) = []
   \<and> completedAutoTasks (comp (autoStep (testEnv (\<lambda>t. True) (\<lambda>t. agentAnswers))
         allPhases samplePlan initialRun)) = {''plan-1''}"
proof -
  define q where "q = generateAutoResearchQuery samplePlan (researchDepth allPhases)"
  define ins where
    "ins = generateAutoExecutionInstructions samplePlan (executionMode allPhases)"
  define p where "p = tp_id samplePlan"
  define dty where "dty = deploymentProvider allPhases"
  define cfg where "cfg = generateAutoDeploymentConfig samplePlan dty"
  have pr: "enableResearch allPhases" "enableExecution allPhases"
    "enableDeployment allPhases"
    by (simp_all add: allPhases_def)
  have wi: "world initialRun = emptyWorld"
    and ci: "completedAutoTasks (comp initialRun) = {}"
    by (simp_all add: initialRun_def)
  have pid: "tp_id samplePlan = ''plan-1''"
    by (simp add: samplePlan_def)
  have ag: "agentResults agentAnswers = Some sampleResults"
    by (simp add: agentResults_def agentAnswers_def)
  have research: "\<not> isl (snd (conductResearch (testEnv ok (\<lambda>t. agentAnswers)) emptyWorld
          p q detailed))
      \<and> console (fst (conductResearch (testEnv ok (\<lambda>t. agentAnswers)) emptyWorld
          p q detailed)) = []
      \<and> tick (fst (conductResearch (testEnv ok (\<lambda>t. agentAnswers)) emptyWorld
          p q detailed)) = 4"
    if "ok 0" "ok 2" for ok
    using that conductResearch_raises [of "testEnv ok (\<lambda>t. agentAnswers)" emptyWorld
        p q detailed]
      conductResearch_accepted [of "testEnv ok (\<lambda>t. agentAnswers)" emptyWorld q detailed
        sampleResults p]
    by (simp add: write_ok_testEnv research_agent_testEnv emptyWorld_fields ag
          eval_nat_numeral)
  have execution: "\<not> isl (snd (executeTask (testEnv ok (\<lambda>t. agentAnswers)) w p
          code_generation ins))
      \<and> console (fst (executeTask (testEnv ok (\<lambda>t. agentAnswers)) w p
          code_generation ins)) = console w
      \<and> tick (fst (executeTask (testEnv ok (\<lambda>t. agentAnswers)) w p
          code_generation ins)) = 7"
    if "tick w = 4" "ok 4" "ok 5" for ok w
    using that executeTask_raises [of "testEnv ok (\<lambda>t. agentAnswers)" w p
        code_generation ins]
      executeTask_accepted [of "testEnv ok (\<lambda>t. agentAnswers)" w p code_generation ins]
    by (simp add: write_ok_testEnv)
  \<comment> \<open>The collaborator rejects call 0.\<close>
  let ?a = "testEnv (\<lambda>t. t \<noteq> 0) (\<lambda>t. agentAnswers)"
  have a1: "snd (conductResearch ?a emptyWorld p q detailed)
        = Inl (Error ''Failed to create research request'')"
    and a2: "console (fst (conductResearch ?a emptyWorld p q detailed)) = []"
    using conductResearch_rejected [of ?a emptyWorld p q detailed]
    by (simp_all add: write_ok_testEnv emptyWorld_fields)
  note ta = handleAutoStartAll_reaches_idle [where e = ?a and preferences = allPhases
      and plan = samplePlan and r' = initialRun
      and err = "Error ''Failed to create research request''", unfolded Let_def]
  from ta pr a1 a2 have A:
    "console (world (autoStep ?a allPhases samplePlan initialRun))
        = [stepErrorLine samplePlan (Error ''Failed to create research request'')]
     \<and> completedAutoTasks (comp (autoStep ?a allPhases samplePlan initialRun)) = {}"
    by (simp add: wi ci q_def [symmetric] p_def [symmetric])
  \<comment> \<open>The collaborator rejects call 4.\<close>
  let ?b = "testEnv (\<lambda>t. t \<noteq> 4) (\<lambda>t. agentAnswers)"
  let ?wb = "fst (conductResearch ?b emptyWorld p q detailed)"
  have b1: "\<not> isl (snd (conductResearch ?b emptyWorld p q detailed))"
    and b2: "console ?wb = []" and b3: "tick ?wb = 4"
    using research [of "\<lambda>t. t \<noteq> 4"] by simp_all
  have b4: "snd (executeTask ?b ?wb p code_generation ins)
        = Inl (Error ''Failed to create execution request'')"
    and b5: "console (fst (executeTask ?b ?wb p code_generation ins)) = []"
    using executeTask_rejected [of ?b ?wb p code_generation ins] b2 b3
    by (simp_all add: write_ok_testEnv)
  note tb = handleAutoStartAll_reaches_idle [where e = ?b and preferences = allPhases
      and plan = samplePlan and r' = initialRun
      and err = "Error ''Failed to create execution request''", unfolded Let_def]
  from tb pr b1 b4 b5 have B:
    "console (world (autoStep ?b allPhases samplePlan initialRun))
        = [stepErrorLine samplePlan (Error ''Failed to create execution request'')]
     \<and> completedAutoTasks (comp (autoStep ?b allPhases samplePlan initialRun)) = {}"
    by (simp add: wi ci q_def [symmetric] p_def [symmetric] ins_def [symmetric])
  \<comment> \<open>The collaborator rejects call 7.\<close>
  let ?c = "testEnv (\<lambda>t. t \<noteq> 7) (\<lambda>t. agentAnswers)"
  let ?wc = "fst (conductResearch ?c emptyWorld p q detailed)"
  let ?vc = "fst (executeTask ?c ?wc p code_generation ins)"
  have c1: "\<not> isl (snd (conductResearch ?c emptyWorld p q detailed))"
    and c2: "console ?wc = []" and c3: "tick ?wc = 4"
    using research [of "\<lambda>t. t \<noteq> 7"] by simp_all
  have c4: "\<not> isl (snd (executeTask ?c ?wc p code_generation ins))"
    and c5: "console ?vc = []" and c6: "tick ?vc = 7"
    using execution [of ?wc "\<lambda>t. t \<noteq> 7"] c2 c3 by simp_all
  have c7: "snd (deployProject ?c ?vc p dty cfg None)
        = Inl (Error ''Failed to create deployment request'')"
    and c8: "console (fst (deployProject ?c ?vc p dty cfg None)) = []"
    using deployProject_rejected [of ?c ?vc p dty cfg None] c5 c6
    by (simp_all add: write_ok_testEnv)
  note tc = handleAutoStartAll_reaches_idle [where e = ?c and preferences = allPhases
      and plan = samplePlan and r' = initialRun
      and err = "Error ''Failed to create deployment request''", unfolded Let_def]
  from tc pr c1 c4 c7 c8 have C:
    "console (world (autoStep ?c allPhases samplePlan initialRun))
        = [stepErrorLine samplePlan (Error ''Failed to create deployment request'')]
     \<and> completedAutoTasks (comp (autoStep ?c allPhases samplePlan initialRun)) = {}"
    by (simp add: wi ci q_def [symmetric] p_def [symmetric] ins_def [symmetric]
          cfg_def [symmetric] dty_def [symmetric])
  \<comment> \<open>The collaborator accepts every call.\<close>
  let ?d = "testEnv (\<lambda>t. True) (\<lambda>t. agentAnswers)"
  let ?wd = "fst (conductResearch ?d emptyWorld p q detailed)"
  let ?vd = "fst (executeTask ?d ?wd p code_generation ins)"
  have d1: "\<not> isl (snd (conductResearch ?d emptyWorld p q detailed))"
    and d2: "console ?wd = []" and d3: "tick ?wd = 4"
    using research [of "\<lambda>t. True"] by simp_all
  have d4: "\<not> isl (snd (executeTask ?d ?wd p code_generation ins))"
    and d5: "console ?vd = []" and d6: "tick ?vd = 7"
    using execution [of ?wd "\<lambda>t. True"] d2 d3 by simp_all
  have d7: "\<not> isl (snd (deployProject ?d ?vd p dty cfg None))"
    and d8: "console (fst (deployProject ?d ?vd p dty cfg None)) = []"
    using deployProject_raises [of ?d ?vd p dty cfg None] d5
    by (simp_all add: write_ok_testEnv deployProject_console)
  note td = handleAutoStartAll_reaches_idle [where e = ?d and preferences = allPhases
      and plan = samplePlan and r' = initialRun, unfolded Let_def]
  from td pr d1 d4 d7 d8 have
    "console (world (autoStep ?d allPhases samplePlan initialRun)) = []
     \<and> completedAutoTasks (comp (autoStep ?d allPhases samplePlan initialRun)) = {p}"
    by (simp add: wi ci q_def [symmetric] p_def [symmetric] ins_def [symmetric]
          cfg_def [symmetric] dty_def [symmetric])
  then have D:
    "console (world (autoStep ?d allPhases samplePlan initialRun)) = []
     \<and> completedAutoTasks (comp (autoStep ?d allPhases samplePlan initialRun))
         = {''plan-1''}"
    by (simp add: p_def pid)
  from pr a1 b1 b4 A B C D show ?thesis
    by (simp add: wi q_def p_def ins_def)
qed

text \<open>
  Claim C1, on the code.  The user starts the runner from the idle page, where the state
  \<^verbatim>\<open>isAutoRunning\<close> is false; that is the value the closure captured.  With one plan
  step, all three phases enabled and a collaborator that accepts every write, the loop
  breaks before its first step: no recorder is invoked, where the claim counts three
  invocations, and nothing is written.
\<close>

theorem handleAutoStartAll_from_idle_invokes_nothing:
  "isAutoRunning (comp initialRun) = False
   \<and> enableResearch allPhases \<and> enableExecution allPhases \<and> enableDeployment allPhases
   \<and> calls (handleAutoStartAll (testEnv (\<lambda>t. True) (\<lambda>t. agentAnswers))
            (isAutoRunning (comp initialRun)) [samplePlan] allPhases initialRun) = []
   \<and> world (handleAutoStartAll (testEnv (\<lambda>t. True) (\<lambda>t. agentAnswers))
            (isAutoRunning (comp initialRun)) [samplePlan] allPhases initialRun)
       = emptyWorld
   \<and> length (stepCalls allPhases samplePlan) = 3"
  by (simp add: handleAutoStartAll_def initialRun_def allPhases_def stepCalls_def Let_def)

end
